theory Spec2Isabelle
  imports Main "HOL-Library.Word"
begin

unbundle bit_operations_syntax

section \<open>Machine model\<close>

text \<open>
  Bytes are \<open>uint8_t\<close>, words are \<open>uint32_t\<close>.  A pointer is modelled by what can be read
  through it: \<open>None\<close> is \<open>NULL\<close>, \<open>Some bs\<close> is an address at which the bytes \<open>bs\<close>
  lie (first byte first).  The xPU devices and their hosts are little-endian, and the source
  has no big-endian branch, so a multi-byte object is read and written least significant
  byte first.
\<close>

type_synonym uint8_t = "8 word"
type_synonym uint32_t = "32 word"
type_synonym addr_t = "uint8_t list option"

text \<open>The object representation of a fixed-width value: \<open>n\<close> bytes, low byte first.\<close>

fun store_bytes :: "nat \<Rightarrow> 'a::len word \<Rightarrow> uint8_t list" where
  "store_bytes 0 w = []"
| "store_bytes (Suc n) w = ucast w # store_bytes n (drop_bit 8 w)"

text \<open>Reading a fixed-width value back from its bytes.\<close>

fun load_bytes :: "uint8_t list \<Rightarrow> 'a::len word" where
  "load_bytes [] = 0"
| "load_bytes (b # bs) = ucast b + push_bit 8 (load_bytes bs)"

section \<open>Fixed-width base types (xpu_basetype.h)\<close>

text \<open>
  The type catalog of \<open>PGSTROM_SQLTYPE_SIMPLE_DECLARATION\<close>: each \<open>NAME\<close> with the width in
  bytes of its \<open>BASETYPE\<close> (\<open>int8_t\<close>, \<open>int8_t\<close>, \<open>int16_t\<close>, \<open>int32_t\<close>, \<open>int64_t\<close>,
  \<open>float2_t\<close>, \<open>float4_t\<close>, \<open>float8_t\<close>).  A floating-point value is carried as its bit
  pattern: the template only copies it.
\<close>

datatype TypeOpCode =
    TypeOpCode__bool
  | TypeOpCode__int1
  | TypeOpCode__int2
  | TypeOpCode__int4
  | TypeOpCode__int8
  | TypeOpCode__float2
  | TypeOpCode__float4
  | TypeOpCode__float8

fun sizeof_BASETYPE :: "TypeOpCode \<Rightarrow> nat" where
  "sizeof_BASETYPE TypeOpCode__bool = 1"
| "sizeof_BASETYPE TypeOpCode__int1 = 1"
| "sizeof_BASETYPE TypeOpCode__int2 = 2"
| "sizeof_BASETYPE TypeOpCode__int4 = 4"
| "sizeof_BASETYPE TypeOpCode__int8 = 8"
| "sizeof_BASETYPE TypeOpCode__float2 = 2"
| "sizeof_BASETYPE TypeOpCode__float4 = 4"
| "sizeof_BASETYPE TypeOpCode__float8 = 8"

text \<open>
  \<open>xpu_NAME_t\<close>: the operator table it points to (\<open>None\<close> is a null pointer, \<open>Some NAME\<close>
  is \<open>&xpu_NAME_ops\<close>), the null flag and the value.
\<close>

record 'v xpu_datum_t =
  ops :: "TypeOpCode option"
  isnull :: bool
  "value" :: 'v

type_synonym xpu_bool_t = "uint8_t xpu_datum_t"

text \<open>
  \<open>xpu_NAME_datum_ref\<close>: the result is zeroed, then either flagged null or given the value
  read at \<open>addr\<close>; the operator table is set last.  The incoming contents of the result
  are overwritten entirely.
\<close>

definition xpu_datum_ref ::
  "TypeOpCode \<Rightarrow> addr_t \<Rightarrow> ('a::len word) xpu_datum_t" where
  "xpu_datum_ref NAME addr =
     (let result = \<lparr>ops = None, isnull = False, value = 0\<rparr> in
      let result = (case addr of
                      None \<Rightarrow> result\<lparr>isnull := True\<rparr>
                    | Some bs \<Rightarrow> result\<lparr>value := load_bytes (take (sizeof_BASETYPE NAME) bs)\<rparr>)
      in result\<lparr>ops := Some NAME\<rparr>)"

text \<open>
  \<open>xpu_NAME_datum_store\<close>: nothing is written for a null datum; otherwise the value is
  written at the start of \<open>buffer\<close>.  The result is the buffer afterwards and the returned
  byte count.
\<close>

definition xpu_datum_store ::
  "TypeOpCode \<Rightarrow> uint8_t list \<Rightarrow> ('a::len word) xpu_datum_t \<Rightarrow> uint8_t list \<times> nat" where
  "xpu_datum_store NAME buffer arg =
     (if isnull arg then (buffer, 0)
      else (store_bytes (sizeof_BASETYPE NAME) (value arg) @ drop (sizeof_BASETYPE NAME) buffer,
            sizeof_BASETYPE NAME))"

section \<open>The device version of hash_any (xpu_common.c)\<close>

type_synonym hash_state = "uint32_t \<times> uint32_t \<times> uint32_t"

definition rot :: "uint32_t \<Rightarrow> nat \<Rightarrow> uint32_t" where
  "rot x k = push_bit k x OR drop_bit (32 - k) x"

definition mix :: "hash_state \<Rightarrow> hash_state" where
  "mix s =
     (case s of (a, b, c) \<Rightarrow>
        let a = a - c; a = a XOR rot c 4;  c = c + b;
            b = b - a; b = b XOR rot a 6;  a = a + c;
            c = c - b; c = c XOR rot b 8;  b = b + a;
            a = a - c; a = a XOR rot c 16; c = c + b;
            b = b - a; b = b XOR rot a 19; a = a + c;
            c = c - b; c = c XOR rot b 4;  b = b + a
        in (a, b, c))"

definition final :: "hash_state \<Rightarrow> hash_state" where
  "final s =
     (case s of (a, b, c) \<Rightarrow>
        let c = c XOR b; c = c - rot b 14;
            a = a XOR c; a = a - rot c 11;
            b = b XOR a; b = b - rot a 25;
            c = c XOR b; c = c - rot b 16;
            a = a XOR c; a = a - rot c 4;
            b = b XOR a; b = b - rot a 14;
            c = c XOR b; c = c - rot b 24
        in (a, b, c))"

text \<open>\<open>(uint32_t) k[i] << n\<close> for a byte pointer \<open>k\<close>.\<close>

definition byte_shl :: "uint8_t list \<Rightarrow> nat \<Rightarrow> nat \<Rightarrow> uint32_t" where
  "byte_shl k i n = push_bit n (ucast (k ! i))"

text \<open>\<open>ka[i]\<close> for the word pointer \<open>ka\<close> at the same address: one 32-bit load.\<close>

definition word_at :: "uint8_t list \<Rightarrow> nat \<Rightarrow> uint32_t" where
  "word_at k i = load_bytes (take 4 (drop (4 * i) k))"

text \<open>
  The two \<open>while (len >= 12)\<close> loops.  Each gives the pointer, the remaining length and
  the state at its exit.
\<close>

function hash_loop_aligned ::
  "uint8_t list \<Rightarrow> uint32_t \<Rightarrow> hash_state \<Rightarrow> uint8_t list \<times> uint32_t \<times> hash_state" where
  "hash_loop_aligned ka len s =
     (if 12 \<le> len
      then (case s of (a, b, c) \<Rightarrow>
              hash_loop_aligned (drop 12 ka) (len - 12)
                (mix (a + word_at ka 0, b + word_at ka 1, c + word_at ka 2)))
      else (ka, len, s))"
  by pat_completeness auto
termination
  by (relation "measure (\<lambda>(ka, len, s). unat len)") (auto simp: unat_sub word_le_nat_alt)

function hash_loop_unaligned ::
  "uint8_t list \<Rightarrow> uint32_t \<Rightarrow> hash_state \<Rightarrow> uint8_t list \<times> uint32_t \<times> hash_state" where
  "hash_loop_unaligned k len s =
     (if 12 \<le> len
      then (case s of (a, b, c) \<Rightarrow>
              hash_loop_unaligned (drop 12 k) (len - 12)
                (mix (a + (byte_shl k 0 0 + (byte_shl k 1 8 + byte_shl k 2 16 + byte_shl k 3 24)),
                      b + (byte_shl k 4 0 + (byte_shl k 5 8 + byte_shl k 6 16 + byte_shl k 7 24)),
                      c + (byte_shl k 8 0 + (byte_shl k 9 8 + byte_shl k 10 16 + byte_shl k 11 24)))))
      else (k, len, s))"
  by pat_completeness auto
termination
  by (relation "measure (\<lambda>(k, len, s). unat len)") (auto simp: unat_sub word_le_nat_alt)

declare hash_loop_aligned.simps [simp del] hash_loop_unaligned.simps [simp del]

text \<open>
  The two \<open>switch (len)\<close> statements for the last 11 bytes.  A case that falls through
  continues at the next lower label.
\<close>

function hash_tail_aligned :: "nat \<Rightarrow> uint8_t list \<Rightarrow> hash_state \<Rightarrow> hash_state" where
  "hash_tail_aligned len k s =
     (case s of (a, b, c) \<Rightarrow>
        if len = 11 then hash_tail_aligned 10 k (a, b, c + byte_shl k 10 24)
        else if len = 10 then hash_tail_aligned 9 k (a, b, c + byte_shl k 9 16)
        else if len = 9 then hash_tail_aligned 8 k (a, b, c + byte_shl k 8 8)
        else if len = 8 then (a + word_at k 0, b + word_at k 1, c)
        else if len = 7 then hash_tail_aligned 6 k (a, b + byte_shl k 6 16, c)
        else if len = 6 then hash_tail_aligned 5 k (a, b + byte_shl k 5 8, c)
        else if len = 5 then hash_tail_aligned 4 k (a, b + byte_shl k 4 0, c)
        else if len = 4 then (a + word_at k 0, b, c)
        else if len = 3 then hash_tail_aligned 2 k (a + byte_shl k 2 16, b, c)
        else if len = 2 then hash_tail_aligned 1 k (a + byte_shl k 1 8, b, c)
        else if len = 1 then (a + byte_shl k 0 0, b, c)
        else (a, b, c))"
  by pat_completeness auto
termination
  by (relation "measure (\<lambda>(len, k, s). len)") auto

function hash_tail_unaligned :: "nat \<Rightarrow> uint8_t list \<Rightarrow> hash_state \<Rightarrow> hash_state" where
  "hash_tail_unaligned len k s =
     (case s of (a, b, c) \<Rightarrow>
        if len = 11 then hash_tail_unaligned 10 k (a, b, c + byte_shl k 10 24)
        else if len = 10 then hash_tail_unaligned 9 k (a, b, c + byte_shl k 9 16)
        else if len = 9 then hash_tail_unaligned 8 k (a, b, c + byte_shl k 8 8)
        else if len = 8 then hash_tail_unaligned 7 k (a, b + byte_shl k 7 24, c)
        else if len = 7 then hash_tail_unaligned 6 k (a, b + byte_shl k 6 16, c)
        else if len = 6 then hash_tail_unaligned 5 k (a, b + byte_shl k 5 8, c)
        else if len = 5 then hash_tail_unaligned 4 k (a, b + byte_shl k 4 0, c)
        else if len = 4 then hash_tail_unaligned 3 k (a + byte_shl k 3 24, b, c)
        else if len = 3 then hash_tail_unaligned 2 k (a + byte_shl k 2 16, b, c)
        else if len = 2 then hash_tail_unaligned 1 k (a + byte_shl k 1 8, b, c)
        else if len = 1 then (a + byte_shl k 0 0, b, c)
        else (a, b, c))"
  by pat_completeness auto
termination
  by (relation "measure (\<lambda>(len, k, s). len)") auto

definition pg_hash_any_aligned :: "uint8_t list \<Rightarrow> uint32_t \<Rightarrow> hash_state \<Rightarrow> hash_state" where
  "pg_hash_any_aligned k len s =
     (case hash_loop_aligned k len s of (ka, len', s') \<Rightarrow> hash_tail_aligned (unat len') ka s')"

definition pg_hash_any_unaligned :: "uint8_t list \<Rightarrow> uint32_t \<Rightarrow> hash_state \<Rightarrow> hash_state" where
  "pg_hash_any_unaligned k len s =
     (case hash_loop_unaligned k len s of (k', len', s') \<Rightarrow> hash_tail_unaligned (unat len') k' s')"

text \<open>
  \<open>pg_hash_any(ptr, sz)\<close>: \<open>ptr\<close> is the numeric address and \<open>k\<close> the bytes that lie there.
  The \<open>int\<close> length is converted to \<open>uint32_t\<close>; the path is chosen by the two low bits
  of the address.
\<close>

definition pg_hash_any :: "64 word \<Rightarrow> uint8_t list \<Rightarrow> int \<Rightarrow> uint32_t" where
  "pg_hash_any ptr k sz =
     (let len = (word_of_int sz :: uint32_t);
          a = 0x9e3779b9 + len + 3923095;
          s = (if ptr AND 3 = 0 then pg_hash_any_aligned k len (a, a, a)
               else pg_hash_any_unaligned k len (a, a, a))
      in case final s of (a, b, c) \<Rightarrow> c)"

text \<open>
  \<open>xpu_NAME_datum_hash\<close>: the sentinel 0 for null, otherwise the hash of the bytes of the
  value field, which lies at the address \<open>value_ptr\<close>.
\<close>

definition xpu_datum_hash ::
  "TypeOpCode \<Rightarrow> 64 word \<Rightarrow> ('a::len word) xpu_datum_t \<Rightarrow> uint32_t" where
  "xpu_datum_hash NAME value_ptr arg =
     (if isnull arg then 0
      else pg_hash_any value_ptr (store_bytes (sizeof_BASETYPE NAME) (value arg))
             (int (sizeof_BASETYPE NAME)))"

section \<open>Expression nodes and the evaluator (xpu_common.c)\<close>

text \<open>The opcodes of \<open>builtin_xpu_functions_catalog\<close>.\<close>

datatype FuncOpCode =
    FuncOpCode__Invalid
  | FuncOpCode__ConstExpr
  | FuncOpCode__ParamExpr
  | FuncOpCode__VarExpr
  | FuncOpCode__BoolExpr_And
  | FuncOpCode__BoolExpr_Or
  | FuncOpCode__BoolExpr_Not
  | FuncOpCode__NullTestExpr_IsNull
  | FuncOpCode__NullTestExpr_IsNotNull
  | FuncOpCode__BoolTestExpr_IsTrue
  | FuncOpCode__BoolTestExpr_IsNotTrue
  | FuncOpCode__BoolTestExpr_IsFalse
  | FuncOpCode__BoolTestExpr_IsNotFalse
  | FuncOpCode__BoolTestExpr_IsUnknown
  | FuncOpCode__BoolTestExpr_IsNotUnknown

text \<open>
  \<open>kern_expression\<close>: the opcode, the result type (standing for \<open>rettype_ops\<close>), the
  members \<open>u.c\<close> and \<open>u.p\<close> of the payload, and the children.  The children lie one after
  the other in the blob; here they are a list and \<open>nargs\<close> is its length.
\<close>

datatype kern_expression =
  KernExpression
    (opcode : FuncOpCode)
    (rettype : TypeOpCode)
    (const_isnull : bool)
    (const_value : "uint8_t list")
    (param_id : uint32_t)
    (args : "kern_expression list")

text \<open>
  \<open>kern_session_info\<close>: the fields that the sources assign, with the offset table
  \<open>poffset[nparams]\<close> as a list, and \<open>session_bytes\<close>, the bytes of the whole session
  buffer, which every offset is relative to.  The layout of the structure is not in the
  sources, so the image of the fields themselves at the start of the buffer is left as
  zero bytes.
\<close>

record kern_session_info =
  query_plan_id :: "64 word"
  kcxt_extra_bufsz :: uint32_t
  kvars_slot_width :: uint32_t
  kvars_slot_items :: uint32_t
  xpucode_use_debug_code :: bool
  xpucode_scan_load_vars :: uint32_t
  xpucode_scan_quals :: uint32_t
  xpucode_join_load_vars_packed :: uint32_t
  xpucode_join_quals_packed :: uint32_t
  xpucode_hash_values_packed :: uint32_t
  xpucode_gist_quals_packed :: uint32_t
  xpucode_projection :: uint32_t
  xactStartTimestamp :: int
  session_xact_state :: uint32_t
  session_timezone :: uint32_t
  session_encode :: uint32_t
  pgsql_port_number :: int
  join_inner_handle :: uint32_t
  nparams :: uint32_t
  poffset :: "uint32_t list"
  session_bytes :: "uint8_t list"

text \<open>\<open>memset(session, 0, session_sz)\<close> for a table of \<open>n\<close> offsets.\<close>

definition zeroed_session :: "nat \<Rightarrow> kern_session_info" where
  "zeroed_session n =
     \<lparr>query_plan_id = 0, kcxt_extra_bufsz = 0, kvars_slot_width = 0, kvars_slot_items = 0,
      xpucode_use_debug_code = False, xpucode_scan_load_vars = 0, xpucode_scan_quals = 0,
      xpucode_join_load_vars_packed = 0, xpucode_join_quals_packed = 0,
      xpucode_hash_values_packed = 0, xpucode_gist_quals_packed = 0, xpucode_projection = 0,
      xactStartTimestamp = 0, session_xact_state = 0, session_timezone = 0, session_encode = 0,
      pgsql_port_number = 0, join_inner_handle = 0,
      nparams = 0, poffset = replicate n 0, session_bytes = []\<rparr>"

record kern_context =
  session :: kern_session_info

text \<open>
  A function of the catalog returns \<open>false\<close> on failure, after \<open>STROM_ELOG\<close> has recorded a
  message; here a failure is the value \<open>Inl\<close> with that message.
\<close>

datatype error =
    CorruptedBytecode
  | Elog string

text \<open>
  The type of \<open>EXEC_KERN_EXPRESSION(kcxt, arg, &status)\<close>: it gets the context, the node and
  the present contents of the result buffer, and gives the context afterwards and either a
  failure or the result buffer as the callee left it.
\<close>

type_synonym ('s, 'v) xpu_exec =
  "'s \<Rightarrow> kern_expression \<Rightarrow> 'v xpu_datum_t \<Rightarrow> 's \<times> (error + 'v xpu_datum_t)"

text \<open>
  Modelled from the spec: \<open>KEXP_FIRST_ARG(NARGS, TYPE)\<close> (xpu_common.h is not among the
  sources).  The child count of an opcode is fixed by its contract, a negative \<open>NARGS\<close>
  allowing any number; a node of another arity is corrupted bytecode.  The result stands
  for the pointer to the first child: the children from there on.
\<close>

definition KEXP_FIRST_ARG :: "int \<Rightarrow> kern_expression \<Rightarrow> error + kern_expression list" where
  "KEXP_FIRST_ARG NARGS kexp =
     (if NARGS < 0 \<or> int (length (args kexp)) = NARGS then Inr (args kexp)
      else Inl CorruptedBytecode)"

text \<open>C truth values stored into an \<open>int8_t\<close>.\<close>

definition c_bool :: "bool \<Rightarrow> uint8_t" where
  "c_bool b = (if b then 1 else 0)"

definition pgfn_ConstExpr :: "('s, 'a::len word) xpu_exec" where
  "pgfn_ConstExpr kcxt kexp result =
     (let addr = (if const_isnull kexp then None else Some (const_value kexp))
      in (kcxt, Inr (xpu_datum_ref (rettype kexp) addr)))"

definition pgfn_ParamExpr :: "(kern_context, 'a::len word) xpu_exec" where
  "pgfn_ParamExpr kcxt kexp result =
     (let sess = session kcxt;
          addr = (if unat (param_id kexp) < unat (nparams sess) \<and>
                     poffset sess ! unat (param_id kexp) \<noteq> 0
                  then Some (drop (unat (poffset sess ! unat (param_id kexp))) (session_bytes sess))
                  else None)
      in (kcxt, Inr (xpu_datum_ref (rettype kexp) addr)))"

definition pgfn_VarExpr :: "('s, 'v) xpu_exec" where
  "pgfn_VarExpr kcxt kexp result = (kcxt, Inr result)"

text \<open>
  The loop of \<open>pgfn_BoolExprAnd\<close> over the remaining children.  \<open>status\<close> is a local
  variable without initialiser: \<open>status0 i\<close> is what it holds when iteration \<open>i\<close> begins.
\<close>

fun BoolExprAnd_loop ::
  "('s, uint8_t) xpu_exec \<Rightarrow> (nat \<Rightarrow> xpu_bool_t) \<Rightarrow> 's \<Rightarrow> nat \<Rightarrow> kern_expression list
     \<Rightarrow> bool \<Rightarrow> xpu_bool_t \<Rightarrow> 's \<times> (error + xpu_bool_t)" where
  "BoolExprAnd_loop exec status0 kcxt i [] anynull result =
     (kcxt, Inr (result\<lparr>isnull := anynull, value := c_bool True\<rparr>))"
| "BoolExprAnd_loop exec status0 kcxt i (arg # rest) anynull result =
     (case exec kcxt arg (status0 i) of
        (kcxt', Inl e) \<Rightarrow> (kcxt', Inl e)
      | (kcxt', Inr status) \<Rightarrow>
          if isnull status then BoolExprAnd_loop exec status0 kcxt' (Suc i) rest True result
          else if value status = 0 then (kcxt', Inr (result\<lparr>value := c_bool False\<rparr>))
          else BoolExprAnd_loop exec status0 kcxt' (Suc i) rest anynull result)"

definition pgfn_BoolExprAnd ::
  "('s, uint8_t) xpu_exec \<Rightarrow> (nat \<Rightarrow> xpu_bool_t) \<Rightarrow> ('s, uint8_t) xpu_exec" where
  "pgfn_BoolExprAnd exec status0 kcxt kexp result =
     (case KEXP_FIRST_ARG (- 1) kexp of
        Inl e \<Rightarrow> (kcxt, Inl e)
      | Inr arg \<Rightarrow>
          BoolExprAnd_loop exec status0 kcxt 0 arg False (result\<lparr>ops := Some TypeOpCode__bool\<rparr>))"

fun BoolExprOr_loop ::
  "('s, uint8_t) xpu_exec \<Rightarrow> (nat \<Rightarrow> xpu_bool_t) \<Rightarrow> 's \<Rightarrow> nat \<Rightarrow> kern_expression list
     \<Rightarrow> bool \<Rightarrow> xpu_bool_t \<Rightarrow> 's \<times> (error + xpu_bool_t)" where
  "BoolExprOr_loop exec status0 kcxt i [] anynull result =
     (kcxt, Inr (result\<lparr>isnull := anynull, value := c_bool False\<rparr>))"
| "BoolExprOr_loop exec status0 kcxt i (arg # rest) anynull result =
     (case exec kcxt arg (status0 i) of
        (kcxt', Inl e) \<Rightarrow> (kcxt', Inl e)
      | (kcxt', Inr status) \<Rightarrow>
          if isnull status then BoolExprOr_loop exec status0 kcxt' (Suc i) rest True result
          else if value status \<noteq> 0 then (kcxt', Inr (result\<lparr>value := c_bool True\<rparr>))
          else BoolExprOr_loop exec status0 kcxt' (Suc i) rest anynull result)"

definition pgfn_BoolExprOr ::
  "('s, uint8_t) xpu_exec \<Rightarrow> (nat \<Rightarrow> xpu_bool_t) \<Rightarrow> ('s, uint8_t) xpu_exec" where
  "pgfn_BoolExprOr exec status0 kcxt kexp result =
     (case KEXP_FIRST_ARG (- 1) kexp of
        Inl e \<Rightarrow> (kcxt, Inl e)
      | Inr arg \<Rightarrow>
          BoolExprOr_loop exec status0 kcxt 0 arg False (result\<lparr>ops := Some TypeOpCode__bool\<rparr>))"

text \<open>
  \<open>pgfn_BoolExprNot\<close>.  In the non-null branch the source assigns
  \<open>result->value = !result->value\<close>: the operand of the negation is the result buffer.
\<close>

definition pgfn_BoolExprNot ::
  "('s, uint8_t) xpu_exec \<Rightarrow> xpu_bool_t \<Rightarrow> ('s, uint8_t) xpu_exec" where
  "pgfn_BoolExprNot exec status0 kcxt kexp result =
     (case KEXP_FIRST_ARG 1 kexp of
        Inl e \<Rightarrow> (kcxt, Inl e)
      | Inr [] \<Rightarrow> (kcxt, Inl CorruptedBytecode)
      | Inr (arg # _) \<Rightarrow>
          (case exec kcxt arg status0 of
             (kcxt', Inl e) \<Rightarrow> (kcxt', Inl e)
           | (kcxt', Inr status) \<Rightarrow>
               (let result = result\<lparr>ops := Some TypeOpCode__bool\<rparr>
                in if isnull status then (kcxt', Inr (result\<lparr>isnull := True\<rparr>))
                   else (kcxt', Inr (result\<lparr>isnull := False,
                                             value := c_bool (value result = 0)\<rparr>)))))"

text \<open>
  \<open>pgfn_NullTestExpr\<close>.  The child may be of any type; its buffer comes from \<open>alloca\<close> and
  holds \<open>status0\<close> to begin with.
\<close>

definition pgfn_NullTestExpr ::
  "('s, 'v) xpu_exec \<Rightarrow> 'v xpu_datum_t \<Rightarrow> ('s, uint8_t) xpu_exec" where
  "pgfn_NullTestExpr exec status0 kcxt kexp result =
     (case KEXP_FIRST_ARG 1 kexp of
        Inl e \<Rightarrow> (kcxt, Inl e)
      | Inr [] \<Rightarrow> (kcxt, Inl CorruptedBytecode)
      | Inr (arg # _) \<Rightarrow>
          (case exec kcxt arg status0 of
             (kcxt', Inl e) \<Rightarrow> (kcxt', Inl e)
           | (kcxt', Inr status) \<Rightarrow>
               (let result = result\<lparr>ops := Some TypeOpCode__bool, isnull := False\<rparr>
                in case opcode kexp of
                     FuncOpCode__NullTestExpr_IsNull \<Rightarrow>
                       (kcxt', Inr (result\<lparr>value := c_bool (isnull status)\<rparr>))
                   | FuncOpCode__NullTestExpr_IsNotNull \<Rightarrow>
                       (kcxt', Inr (result\<lparr>value := c_bool (\<not> isnull status)\<rparr>))
                   | _ \<Rightarrow> (kcxt', Inl (Elog ''corrupted kernel expression'')))))"

definition pgfn_BoolTestExpr ::
  "('s, uint8_t) xpu_exec \<Rightarrow> xpu_bool_t \<Rightarrow> ('s, uint8_t) xpu_exec" where
  "pgfn_BoolTestExpr exec status0 kcxt kexp result =
     (case KEXP_FIRST_ARG 1 kexp of
        Inl e \<Rightarrow> (kcxt, Inl e)
      | Inr [] \<Rightarrow> (kcxt, Inl CorruptedBytecode)
      | Inr (arg # _) \<Rightarrow>
          (case exec kcxt arg status0 of
             (kcxt', Inl e) \<Rightarrow> (kcxt', Inl e)
           | (kcxt', Inr status) \<Rightarrow>
               (let result = result\<lparr>ops := Some TypeOpCode__bool, isnull := False\<rparr>
                in case opcode kexp of
                     FuncOpCode__BoolTestExpr_IsTrue \<Rightarrow>
                       (kcxt', Inr (result\<lparr>value :=
                          c_bool (\<not> isnull status \<and> value status \<noteq> 0)\<rparr>))
                   | FuncOpCode__BoolTestExpr_IsNotTrue \<Rightarrow>
                       (kcxt', Inr (result\<lparr>value :=
                          c_bool (isnull status \<or> value status = 0)\<rparr>))
                   | FuncOpCode__BoolTestExpr_IsFalse \<Rightarrow>
                       (kcxt', Inr (result\<lparr>value :=
                          c_bool (\<not> isnull status \<and> value status = 0)\<rparr>))
                   | FuncOpCode__BoolTestExpr_IsNotFalse \<Rightarrow>
                       (kcxt', Inr (result\<lparr>value :=
                          c_bool (isnull status \<or> value status \<noteq> 0)\<rparr>))
                   | FuncOpCode__BoolTestExpr_IsUnknown \<Rightarrow>
                       (kcxt', Inr (result\<lparr>value := c_bool (isnull status)\<rparr>))
                   | FuncOpCode__BoolTestExpr_IsNotUnknown \<Rightarrow>
                       (kcxt', Inr (result\<lparr>value := c_bool (\<not> isnull status)\<rparr>))
                   | _ \<Rightarrow> (kcxt', Inl (Elog ''corrupted kernel expression'')))))"

text \<open>
  Modelled from the spec: \<open>EXEC_KERN_EXPRESSION\<close> (xpu_common.h is not among the sources)
  dispatches on the opcode into \<open>builtin_xpu_functions_catalog\<close>; an opcode that is not in
  the catalog is corrupted bytecode.  This is the instance for nodes whose result is one
  byte wide, for trees of depth at most \<open>depth\<close>; \<open>stack\<close> is what a local variable
  without initialiser holds.
\<close>

primrec xpu_exec_depth :: "nat \<Rightarrow> xpu_bool_t \<Rightarrow> (kern_context, uint8_t) xpu_exec" where
  "xpu_exec_depth 0 stack = (\<lambda>kcxt kexp result. (kcxt, Inl CorruptedBytecode))"
| "xpu_exec_depth (Suc depth) stack =
     (\<lambda>kcxt kexp result.
        case opcode kexp of
          FuncOpCode__ConstExpr \<Rightarrow> pgfn_ConstExpr kcxt kexp result
        | FuncOpCode__ParamExpr \<Rightarrow> pgfn_ParamExpr kcxt kexp result
        | FuncOpCode__VarExpr \<Rightarrow> pgfn_VarExpr kcxt kexp result
        | FuncOpCode__BoolExpr_And \<Rightarrow>
            pgfn_BoolExprAnd (xpu_exec_depth depth stack) (\<lambda>i. stack) kcxt kexp result
        | FuncOpCode__BoolExpr_Or \<Rightarrow>
            pgfn_BoolExprOr (xpu_exec_depth depth stack) (\<lambda>i. stack) kcxt kexp result
        | FuncOpCode__BoolExpr_Not \<Rightarrow>
            pgfn_BoolExprNot (xpu_exec_depth depth stack) stack kcxt kexp result
        | FuncOpCode__NullTestExpr_IsNull \<Rightarrow>
            pgfn_NullTestExpr (xpu_exec_depth depth stack) stack kcxt kexp result
        | FuncOpCode__NullTestExpr_IsNotNull \<Rightarrow>
            pgfn_NullTestExpr (xpu_exec_depth depth stack) stack kcxt kexp result
        | FuncOpCode__Invalid \<Rightarrow> (kcxt, Inl CorruptedBytecode)
        | _ \<Rightarrow> pgfn_BoolTestExpr (xpu_exec_depth depth stack) stack kcxt kexp result)"

text \<open>Counting the calls of \<open>EXEC_KERN_EXPRESSION\<close> that a function makes.\<close>

definition count_exec :: "('s, 'v) xpu_exec \<Rightarrow> (nat \<times> 's, 'v) xpu_exec" where
  "count_exec exec =
     (\<lambda>(n, kcxt) kexp result. case exec kcxt kexp result of (kcxt', r) \<Rightarrow> ((Suc n, kcxt'), r))"

text \<open>
  The three-valued reading of a boolean datum: \<open>None\<close> is null, \<open>Some b\<close> a non-null
  truth value (any non-zero \<open>int8_t\<close> is true, as in C).
\<close>

definition xpu_truth :: "xpu_bool_t \<Rightarrow> bool option" where
  "xpu_truth d = (if isnull d then None else Some (value d \<noteq> 0))"

text \<open>The truth table of the boolean tests, as the specification words it.\<close>

fun spec_BoolTest :: "FuncOpCode \<Rightarrow> bool option \<Rightarrow> bool" where
  "spec_BoolTest FuncOpCode__BoolTestExpr_IsTrue x = (x = Some True)"
| "spec_BoolTest FuncOpCode__BoolTestExpr_IsNotTrue x = (x = None \<or> x = Some False)"
| "spec_BoolTest FuncOpCode__BoolTestExpr_IsFalse x = (x = Some False)"
| "spec_BoolTest FuncOpCode__BoolTestExpr_IsNotFalse x = (x = None \<or> x = Some True)"
| "spec_BoolTest FuncOpCode__BoolTestExpr_IsUnknown x = (x = None)"
| "spec_BoolTest FuncOpCode__BoolTestExpr_IsNotUnknown x = (x \<noteq> None)"
| "spec_BoolTest _ x = False"

definition is_NullTest :: "FuncOpCode \<Rightarrow> bool" where
  "is_NullTest opc =
     (opc = FuncOpCode__NullTestExpr_IsNull \<or> opc = FuncOpCode__NullTestExpr_IsNotNull)"

definition is_BoolTest :: "FuncOpCode \<Rightarrow> bool" where
  "is_BoolTest opc =
     (opc = FuncOpCode__BoolTestExpr_IsTrue \<or> opc = FuncOpCode__BoolTestExpr_IsNotTrue \<or>
      opc = FuncOpCode__BoolTestExpr_IsFalse \<or> opc = FuncOpCode__BoolTestExpr_IsNotFalse \<or>
      opc = FuncOpCode__BoolTestExpr_IsUnknown \<or> opc = FuncOpCode__BoolTestExpr_IsNotUnknown)"

text \<open>Nodes for concrete runs: a boolean constant (\<open>None\<close> for null) and an inner node.\<close>

definition kexp_bool_const :: "bool option \<Rightarrow> kern_expression" where
  "kexp_bool_const x =
     KernExpression FuncOpCode__ConstExpr TypeOpCode__bool (x = None)
       (case x of None \<Rightarrow> [] | Some b \<Rightarrow> [c_bool b]) 0 []"

definition kexp_node :: "FuncOpCode \<Rightarrow> kern_expression list \<Rightarrow> kern_expression" where
  "kexp_node opc children = KernExpression opc TypeOpCode__bool False [] 0 children"

definition zeroed_bool :: xpu_bool_t where
  "zeroed_bool = \<lparr>ops = None, isnull = False, value = 0\<rparr>"

definition empty_context :: kern_context where
  "empty_context = \<lparr>session = zeroed_session 0\<rparr>"

section \<open>Connections and the dispatcher (executor.c)\<close>

datatype XpuCommandTag =
    XpuCommandTag__OpenSession
  | XpuCommandTag__XpuScanExec
  | XpuCommandTag__XpuJoinExec
  | XpuCommandTag__XpuGroupByExec
  | XpuCommandTag__Success
  | XpuCommandTag__CPUFallback
  | XpuCommandTag__Error

record kern_errorbuf =
  errcode :: int
  filename :: string
  lineno :: int
  funcname :: string
  message :: string

text \<open>
  The success code.  \<open>__xpuClientOpenSession\<close> gets the connection from \<open>calloc\<close> and never
  assigns \<open>errorbuf\<close>, so the code that a fresh connection holds is 0.
\<close>

definition ERRCODE_STROM_SUCCESS :: int where
  "ERRCODE_STROM_SUCCESS = 0"

text \<open>
  \<open>XpuCommand\<close>: the tag, the error record \<open>u.error\<close> (meaningful for the tag
  \<open>Error\<close>) and the other bytes of the message.
\<close>

record XpuCommand =
  tag :: XpuCommandTag
  u_error :: kern_errorbuf
  payload :: "uint8_t list"

text \<open>
  \<open>struct XpuConnection\<close>, the fields under the mutex.  The two \<open>dlist\<close>s are lists, head
  first.
\<close>

record XpuConnection =
  terminated :: int
  num_running_cmds :: int
  num_ready_cmds :: int
  ready_cmds_list :: "XpuCommand list"
  active_cmds_list :: "XpuCommand list"
  errorbuf :: kern_errorbuf

text \<open>
  The functions below are the critical sections of the source, each from taking the mutex
  to releasing it.  Names lose their leading underscores.  An \<open>Assert\<close> is compiled out of a
  production build and is not part of the model.
\<close>

text \<open>\<open>__xpuConnectAttachCommand\<close>: the receiver thread hands over one decoded response.\<close>

definition xpuConnectAttachCommand :: "XpuConnection \<Rightarrow> XpuCommand \<Rightarrow> XpuConnection" where
  "xpuConnectAttachCommand conn xcmd =
     (let conn = conn\<lparr>num_running_cmds := num_running_cmds conn - 1\<rparr>
      in if tag xcmd = XpuCommandTag__Error
         then (if errcode (errorbuf conn) = ERRCODE_STROM_SUCCESS
               then conn\<lparr>errorbuf := u_error xcmd\<rparr>
               else conn)
         else conn\<lparr>ready_cmds_list := ready_cmds_list conn @ [xcmd],
                   num_ready_cmds := num_ready_cmds conn + 1\<rparr>)"

text \<open>
  \<open>xpuClientSendCommand\<close> and \<open>xpuClientSendCommandIOV\<close>: the counter is incremented under
  the mutex; the bytes then go to the socket, which is outside the model.
\<close>

definition xpuClientSendCommand :: "XpuConnection \<Rightarrow> XpuConnection" where
  "xpuClientSendCommand conn = conn\<lparr>num_running_cmds := num_running_cmds conn + 1\<rparr>"

definition xpuClientSendCommandIOV :: "XpuConnection \<Rightarrow> XpuConnection" where
  "xpuClientSendCommandIOV conn = conn\<lparr>num_running_cmds := num_running_cmds conn + 1\<rparr>"

text \<open>
  \<open>xpuClientPutResponse\<close>: a response that the consumer is done with is unlinked from its
  list.  The responses handed to it in the sources come from the dispatcher, which has put
  them on the active list.
\<close>

definition xpuClientPutResponse :: "XpuConnection \<Rightarrow> XpuCommand \<Rightarrow> XpuConnection" where
  "xpuClientPutResponse conn xcmd =
     conn\<lparr>active_cmds_list := remove1 xcmd (active_cmds_list conn)\<rparr>"

text \<open>
  \<open>__pickupNextXpuCommand\<close>: the head of the ready list moves to the tail of the active
  list.  Popping from an empty list is undefined in the source; it is \<open>None\<close> here.
\<close>

definition pickupNextXpuCommand :: "XpuConnection \<Rightarrow> (XpuCommand \<times> XpuConnection) option" where
  "pickupNextXpuCommand conn =
     (case ready_cmds_list conn of
        [] \<Rightarrow> None
      | xcmd # rest \<Rightarrow>
          Some (xcmd, conn\<lparr>ready_cmds_list := rest,
                            active_cmds_list := active_cmds_list conn @ [xcmd],
                            num_ready_cmds := num_ready_cmds conn - 1\<rparr>))"

text \<open>Division of C integers truncates towards zero.\<close>

definition c_div :: "int \<Rightarrow> int \<Rightarrow> int" where
  "c_div a b = (if (a < 0) = (b < 0) then \<bar>a\<bar> div \<bar>b\<bar> else - (\<bar>a\<bar> div \<bar>b\<bar>))"

text \<open>
  The admission test of \<open>__fetchNextXpuCommand\<close>; \<open>max_async_tasks\<close> is the setting
  \<open>pgstrom_max_async_tasks\<close>.
\<close>

definition fetch_admits :: "int \<Rightarrow> XpuConnection \<Rightarrow> bool" where
  "fetch_admits max_async_tasks conn =
     (num_running_cmds conn + num_ready_cmds conn < max_async_tasks \<and>
      (ready_cmds_list conn = [] \<or> num_running_cmds conn < c_div max_async_tasks 2))"

text \<open>
  \<open>pgstromTaskState\<close>: the connection, the two flags that the dispatcher reads, and the
  private state of the chunk producer.
\<close>

record 'p pgstromTaskState =
  conn :: XpuConnection
  scan_done :: bool
  final_done :: bool
  producer :: 'p

type_synonym 'p chunk_callback =
  "'p pgstromTaskState \<Rightarrow> XpuCommand option \<times> 'p pgstromTaskState"

text \<open>
  How a call of the dispatcher ends: \<open>ereport(ERROR, \<dots>)\<close> with the error record of the
  connection, or a return with a response or \<open>NULL\<close>.
\<close>

datatype fetch_result =
    Raise kern_errorbuf
  | Return "XpuCommand option"

text \<open>
  While the consumer does not hold the mutex the receiver thread attaches what has arrived.
  A schedule lists, for each time the consumer lets go of the mutex and takes it again,
  the responses that arrive in between, in order of receipt.
\<close>

type_synonym schedule = "XpuCommand list list"

definition receive :: "XpuCommand list \<Rightarrow> 'p pgstromTaskState \<Rightarrow> 'p pgstromTaskState" where
  "receive arrivals pts = pts\<lparr>conn := foldl xpuConnectAttachCommand (conn pts) arrivals\<rparr>"

text \<open>
  \<open>__waitAndFetchNextXpuCommand\<close>.  The result is \<open>None\<close> when the schedule ends while the
  call is still waiting; otherwise it is the outcome, the task state and the rest of the
  schedule.  Interrupts and the death of the postmaster are not modelled.
\<close>

fun waitAndFetchNextXpuCommand ::
  "'p chunk_callback option \<Rightarrow> bool \<Rightarrow> schedule \<Rightarrow> 'p pgstromTaskState
     \<Rightarrow> (fetch_result \<times> 'p pgstromTaskState \<times> schedule) option"
and wait_latch ::
  "'p chunk_callback option \<Rightarrow> bool \<Rightarrow> schedule \<Rightarrow> 'p pgstromTaskState
     \<Rightarrow> (fetch_result \<times> 'p pgstromTaskState \<times> schedule) option" where
  "waitAndFetchNextXpuCommand cb_final_chunk try_final_callback sched pts =
     (if errcode (errorbuf (conn pts)) \<noteq> ERRCODE_STROM_SUCCESS
      then Some (Raise (errorbuf (conn pts)), pts, sched)
      else if ready_cmds_list (conn pts) \<noteq> []
      then (case pickupNextXpuCommand (conn pts) of
              None \<Rightarrow> None
            | Some (xcmd, conn') \<Rightarrow> Some (Return (Some xcmd), pts\<lparr>conn := conn'\<rparr>, sched))
      else if num_running_cmds (conn pts) > 0
      then wait_latch cb_final_chunk try_final_callback sched pts
      else if \<not> try_final_callback then Some (Return None, pts, sched)
      else (case cb_final_chunk of
              None \<Rightarrow> Some (Return None, pts, sched)
            | Some cb \<Rightarrow>
                if final_done pts then Some (Return None, pts, sched)
                else (case cb pts of
                        (None, pts') \<Rightarrow> Some (Return None, pts', sched)
                      | (Some xcmd, pts') \<Rightarrow>
                          wait_latch cb_final_chunk try_final_callback sched
                            (pts'\<lparr>conn := xpuClientSendCommandIOV (conn pts')\<rparr>))))"
| "wait_latch cb_final_chunk try_final_callback [] pts = None"
| "wait_latch cb_final_chunk try_final_callback (arrivals # sched) pts =
     waitAndFetchNextXpuCommand cb_final_chunk try_final_callback sched (receive arrivals pts)"

text \<open>\<open>__fetchNextXpuCommand\<close>, with the same conventions.\<close>

fun fetchNextXpuCommand ::
  "int \<Rightarrow> 'p chunk_callback \<Rightarrow> 'p chunk_callback option \<Rightarrow> schedule \<Rightarrow> 'p pgstromTaskState
     \<Rightarrow> (fetch_result \<times> 'p pgstromTaskState \<times> schedule) option"
and fetch_again ::
  "int \<Rightarrow> 'p chunk_callback \<Rightarrow> 'p chunk_callback option \<Rightarrow> schedule \<Rightarrow> 'p pgstromTaskState
     \<Rightarrow> (fetch_result \<times> 'p pgstromTaskState \<times> schedule) option" where
  "fetchNextXpuCommand max_async_tasks cb_next_chunk cb_final_chunk sched pts =
     (if scan_done pts then waitAndFetchNextXpuCommand cb_final_chunk True sched pts
      else if errcode (errorbuf (conn pts)) \<noteq> ERRCODE_STROM_SUCCESS
      then Some (Raise (errorbuf (conn pts)), pts, sched)
      else if fetch_admits max_async_tasks (conn pts)
      then (case cb_next_chunk pts of
              (None, pts') \<Rightarrow> waitAndFetchNextXpuCommand cb_final_chunk True sched pts'
            | (Some xcmd, pts') \<Rightarrow>
                fetch_again max_async_tasks cb_next_chunk cb_final_chunk sched
                  (pts'\<lparr>conn := xpuClientSendCommandIOV (conn pts')\<rparr>))
      else if ready_cmds_list (conn pts) \<noteq> []
      then (case pickupNextXpuCommand (conn pts) of
              None \<Rightarrow> None
            | Some (xcmd, conn') \<Rightarrow> Some (Return (Some xcmd), pts\<lparr>conn := conn'\<rparr>, sched))
      else fetch_again max_async_tasks cb_next_chunk cb_final_chunk sched pts)"
| "fetch_again max_async_tasks cb_next_chunk cb_final_chunk [] pts = None"
| "fetch_again max_async_tasks cb_next_chunk cb_final_chunk (arrivals # sched) pts =
     fetchNextXpuCommand max_async_tasks cb_next_chunk cb_final_chunk sched
       (receive arrivals pts)"


text \<open>
  The states of a connection that the two threads can bring about, seen each time the mutex
  is free.  The flag says that the consumer has decided to send and has not yet incremented
  the counter: a connection begins so, with \<open>OpenSession\<close> about to be sent.
\<close>

definition new_connection :: XpuConnection where
  "new_connection =
     \<lparr>terminated = 0, num_running_cmds = 0, num_ready_cmds = 0,
      ready_cmds_list = [], active_cmds_list = [],
      errorbuf = \<lparr>errcode = 0, filename = [], lineno = 0, funcname = [], message = []\<rparr>\<rparr>"

inductive xpu_reachable :: "int \<Rightarrow> XpuConnection \<times> bool \<Rightarrow> bool"
  for max_async_tasks :: int where
  opened: "xpu_reachable max_async_tasks (new_connection, True)"
| attached: "xpu_reachable max_async_tasks (c, sending) \<Longrightarrow>
     xpu_reachable max_async_tasks (xpuConnectAttachCommand c xcmd, sending)"
| admitted: "xpu_reachable max_async_tasks (c, False) \<Longrightarrow>
     errcode (errorbuf c) = ERRCODE_STROM_SUCCESS \<Longrightarrow>
     fetch_admits max_async_tasks c \<Longrightarrow>
     xpu_reachable max_async_tasks (c, True)"
| final_chunk: "xpu_reachable max_async_tasks (c, False) \<Longrightarrow>
     errcode (errorbuf c) = ERRCODE_STROM_SUCCESS \<Longrightarrow>
     ready_cmds_list c = [] \<Longrightarrow> \<not> num_running_cmds c > 0 \<Longrightarrow>
     xpu_reachable max_async_tasks (c, True)"
| sent: "xpu_reachable max_async_tasks (c, True) \<Longrightarrow>
     xpu_reachable max_async_tasks (xpuClientSendCommandIOV c, False)"
| no_chunk: "xpu_reachable max_async_tasks (c, True) \<Longrightarrow>
     xpu_reachable max_async_tasks (c, False)"
| picked_up: "xpu_reachable max_async_tasks (c, False) \<Longrightarrow>
     pickupNextXpuCommand c = Some (xcmd, c') \<Longrightarrow>
     xpu_reachable max_async_tasks (c', False)"
| put_back: "xpu_reachable max_async_tasks (c, False) \<Longrightarrow>
     xpu_reachable max_async_tasks (xpuClientPutResponse c xcmd, False)"

declare waitAndFetchNextXpuCommand.simps [simp del] fetchNextXpuCommand.simps [simp del]

text \<open>A producer callback that leaves the connection alone, as those of the sources do.\<close>

definition keeps_conn :: "'p chunk_callback \<Rightarrow> bool" where
  "keeps_conn cb = (\<forall>pts. conn (snd (cb pts)) = conn pts)"

definition keeps_conn_opt :: "'p chunk_callback option \<Rightarrow> bool" where
  "keeps_conn_opt cbf = (case cbf of None \<Rightarrow> True | Some cb \<Rightarrow> keeps_conn cb)"


text \<open>
  The invariant behind the admission bound: the counter of ready responses is the length of
  the ready list, and the two counters together with a send that is under way stay within
  the limit.
\<close>

definition admission_inv :: "int \<Rightarrow> XpuConnection \<times> bool \<Rightarrow> bool" where
  "admission_inv C s =
     (case s of (c, sending) \<Rightarrow>
        num_ready_cmds c = int (length (ready_cmds_list c)) \<and>
        num_running_cmds c + num_ready_cmds c + (if sending then 1 else 0) \<le> C)"

text \<open>
  A producer for concrete runs: it hands out the chunks of a list one by one and reports the
  end of the scan when the list is empty.
\<close>

definition list_producer :: "(XpuCommand list) chunk_callback" where
  "list_producer pts =
     (case producer pts of
        [] \<Rightarrow> (None, pts\<lparr>scan_done := True\<rparr>)
      | xcmd # rest \<Rightarrow> (Some xcmd, pts\<lparr>producer := rest\<rparr>))"

definition no_error :: kern_errorbuf where
  "no_error = \<lparr>errcode = 0, filename = [], lineno = 0, funcname = [], message = []\<rparr>"

definition response :: "XpuCommandTag \<Rightarrow> nat \<Rightarrow> XpuCommand" where
  "response t n = \<lparr>tag = t, u_error = no_error, payload = [of_nat n]\<rparr>"

definition error_response :: "int \<Rightarrow> XpuCommand" where
  "error_response code =
     \<lparr>tag = XpuCommandTag__Error,
      u_error = \<lparr>errcode = code, filename = ''xpu_common.c'', lineno = 155,
                 funcname = ''pgfn_NullTestExpr'', message = ''corrupted kernel expression''\<rparr>,
      payload = []\<rparr>"

definition scan_start :: "XpuCommand list \<Rightarrow> (XpuCommand list) pgstromTaskState" where
  "scan_start chunks =
     \<lparr>conn = new_connection, scan_done = False, final_done = False, producer = chunks\<rparr>"





section \<open>The session builder (executor.c)\<close>

type_synonym Oid = "32 word"

definition InvalidOid :: Oid where
  "InvalidOid = 0"

definition OidIsValid :: "Oid \<Rightarrow> bool" where
  "OidIsValid oid = (oid \<noteq> InvalidOid)"

datatype ParamKind = PARAM_EXTERN | PARAM_EXEC | PARAM_SUBLINK | PARAM_MULTIEXPR

record Param =
  paramkind :: ParamKind
  paramid :: int
  paramtype :: Oid

text \<open>
  A \<open>Datum\<close>: the machine word, and the bytes that lie where it points when it is a
  pointer.
\<close>

record Datum =
  datum_word :: "64 word"
  datum_pointee :: "uint8_t list"

text \<open>
  \<open>ParamExternData\<close> and \<open>ParamExecData\<close>.  Their fields \<open>value\<close> and \<open>isnull\<close> carry a
  prefix here.  \<open>execPlan\<close> is \<open>None\<close> for a null pointer; otherwise it holds the value
  and null flag that \<open>ExecSetParamPlan\<close> stores into the entry when it runs the plan.
\<close>

record ParamExternData =
  prm_value :: Datum
  prm_isnull :: bool
  ptype :: Oid

record ParamExecData =
  execPlan :: "(Datum \<times> bool) option"
  exec_value :: Datum
  exec_isnull :: bool

record ParamListInfoData =
  paramFetch :: "(int \<Rightarrow> ParamExternData) option"
  numParams :: int
  params :: "ParamExternData list"

record ExprContext =
  ecxt_param_exec_vals :: "ParamExecData list"
  ecxt_param_list_info :: "ParamListInfoData option"

text \<open>The \<open>elog(ERROR, \<dots>)\<close> calls of the builder, with the arguments of their messages.\<close>

datatype build_error =
    No_value_found int
  | Type_mismatch int Oid Oid
  | Unexpected_parameter_kind ParamKind
  | Unsupported_parameter_type Oid

text \<open>
  \<open>xs[i]\<close> for a C array and an \<open>int\<close> index.  Outside the array the source reads or
  writes memory that is not the array's: the value read is unspecified, and a write leaves
  the array as it is.
\<close>

definition c_read :: "'a list \<Rightarrow> int \<Rightarrow> 'a" where
  "c_read xs i = (if 0 \<le> i \<and> i < int (length xs) then xs ! nat i else undefined)"

definition c_write :: "'a list \<Rightarrow> int \<Rightarrow> 'a \<Rightarrow> 'a list" where
  "c_write xs i v = (if 0 \<le> i \<and> i < int (length xs) then xs[nat i := v] else xs)"

text \<open>
  Modelled from the spec: \<open>__appendBinaryStringInfo\<close> (misc.c is not among the sources)
  appends the bytes to the arena and returns the byte offset at which they were placed.
\<close>

definition appendBinaryStringInfo :: "uint8_t list \<Rightarrow> uint8_t list \<Rightarrow> uint8_t list \<times> uint32_t" where
  "appendBinaryStringInfo buf data = (buf @ data, of_nat (length buf))"

text \<open>
  The first half of the loop body of \<open>__build_session_param_info\<close>: the value and the
  null flag of one parameter, or the error raised.
\<close>

definition param_value_isnull ::
  "ExprContext \<Rightarrow> ParamListInfoData \<Rightarrow> Param \<Rightarrow> build_error + Datum \<times> bool" where
  "param_value_isnull econtext param_info param =
     (if paramkind param = PARAM_EXEC
      then (let prm = c_read (ecxt_param_exec_vals econtext) (paramid param)
            in case execPlan prm of
                 Some evaluated \<Rightarrow> Inr evaluated
               | None \<Rightarrow> Inr (exec_value prm, exec_isnull prm))
      else if paramkind param = PARAM_EXTERN
      then (let prm = (case paramFetch param_info of
                         Some fetch \<Rightarrow> fetch (paramid param)
                       | None \<Rightarrow> c_read (params param_info) (paramid param - 1))
            in if \<not> OidIsValid (ptype prm) then Inl (No_value_found (paramid param))
               else if ptype prm \<noteq> paramtype param
               then Inl (Type_mismatch (paramid param) (ptype prm) (paramtype param))
               else Inr (prm_value prm, prm_isnull prm))
      else Inl (Unexpected_parameter_kind (paramkind param)))"

text \<open>
  The second half: the offset of the parameter, after its bytes have been appended.
  \<open>get_typlenbyval\<close> and the detoasting of a varlena belong to the host and are parameters.
\<close>

definition param_offset ::
  "(Oid \<Rightarrow> int \<times> bool) \<Rightarrow> (Datum \<Rightarrow> uint8_t list) \<Rightarrow> uint8_t list \<Rightarrow> Param
     \<Rightarrow> Datum \<Rightarrow> bool \<Rightarrow> build_error + uint8_t list \<times> uint32_t" where
  "param_offset get_typlenbyval detoast buf param param_value param_isnull =
     (if param_isnull then Inr (buf, 0)
      else (case get_typlenbyval (paramtype param) of (typlen, typbyval) \<Rightarrow>
              if typbyval
              then Inr (appendBinaryStringInfo buf
                          (store_bytes (nat typlen) (datum_word param_value)))
              else if typlen > 0
              then Inr (appendBinaryStringInfo buf
                          (take (nat typlen) (datum_pointee param_value)))
              else if typlen = - 1
              then Inr (appendBinaryStringInfo buf (detoast param_value))
              else Inl (Unsupported_parameter_type (paramtype param))))"

text \<open>The \<open>foreach\<close> loop over \<open>used_params\<close>.\<close>

fun build_session_param_loop ::
  "(Oid \<Rightarrow> int \<times> bool) \<Rightarrow> (Datum \<Rightarrow> uint8_t list) \<Rightarrow> ExprContext \<Rightarrow> ParamListInfoData
     \<Rightarrow> Param list \<Rightarrow> kern_session_info \<Rightarrow> uint8_t list
     \<Rightarrow> build_error + kern_session_info \<times> uint8_t list" where
  "build_session_param_loop get_typlenbyval detoast econtext param_info [] sess buf =
     Inr (sess, buf)"
| "build_session_param_loop get_typlenbyval detoast econtext param_info (param # rest) sess buf =
     (case param_value_isnull econtext param_info param of
        Inl e \<Rightarrow> Inl e
      | Inr (param_value, param_isnull) \<Rightarrow>
          (case param_offset get_typlenbyval detoast buf param param_value param_isnull of
             Inl e \<Rightarrow> Inl e
           | Inr (buf', offset) \<Rightarrow>
               build_session_param_loop get_typlenbyval detoast econtext param_info rest
                 (sess\<lparr>poffset := c_write (poffset sess) (paramid param) offset\<rparr>) buf'))"

definition build_session_param_info ::
  "(Oid \<Rightarrow> int \<times> bool) \<Rightarrow> (Datum \<Rightarrow> uint8_t list) \<Rightarrow> ExprContext \<Rightarrow> ParamListInfoData
     \<Rightarrow> Param list \<Rightarrow> kern_session_info \<Rightarrow> uint8_t list
     \<Rightarrow> build_error + kern_session_info \<times> uint8_t list" where
  "build_session_param_info get_typlenbyval detoast econtext param_info used_params sess buf =
     build_session_param_loop get_typlenbyval detoast econtext param_info used_params
       (sess\<lparr>nparams := word_of_int (numParams param_info)\<rparr>) buf"

text \<open>
  What \<open>pgstromBuildSessionInfo\<close> takes from the plan (\<open>pgstromPlanInfo\<close>, a \<open>bytea\<close> being
  its payload bytes and \<open>None\<close> a null pointer) and from the host process.
\<close>

record pgstromPlanInfo =
  used_params :: "Param list"
  kexp_scan_kvars_load :: "uint8_t list option"
  kexp_scan_quals :: "uint8_t list option"
  kexp_join_kvars_load_packed :: "uint8_t list option"
  kexp_join_quals_packed :: "uint8_t list option"
  kexp_hash_keys_packed :: "uint8_t list option"
  kexp_gist_quals_packed :: "uint8_t list option"
  kexp_projection :: "uint8_t list option"
  kvars_depth :: "int list"
  kvars_resno :: "int list"
  extra_bufsz :: uint32_t

record host_state =
  get_typlenbyval :: "Oid \<Rightarrow> int \<times> bool"
  detoast_datum :: "Datum \<Rightarrow> uint8_t list"
  sizeof_session_header :: nat
  sizeof_command_header :: nat
  kern_vars_defitem_bytes :: "int \<Rightarrow> int \<Rightarrow> int \<Rightarrow> uint8_t list"
  MyProcPid :: int
  pgstrom_query_plan_id :: uint32_t
  pgstrom_use_debug_code :: bool
  transaction_start_timestamp :: int
  transaction_state :: "uint8_t list"
  timezone :: "uint8_t list option"
  encode_info :: "uint8_t list"
  PostPortNumber :: int
  XpuCommandMagicNumber :: uint32_t

text \<open>An optional code blob goes into the arena; without one the offset stays as it is.\<close>

definition append_xpucode ::
  "uint8_t list option \<Rightarrow> uint8_t list \<Rightarrow> uint32_t \<Rightarrow> uint8_t list \<times> uint32_t" where
  "append_xpucode xpucode buf offset =
     (case xpucode of None \<Rightarrow> (buf, offset) | Some code \<Rightarrow> appendBinaryStringInfo buf code)"

text \<open>\<open>__build_kvars_slot_cmeta\<close>: one item for each pair of the two lists, numbered from 0.\<close>

fun kvars_defitems :: "(int \<Rightarrow> int \<Rightarrow> int \<Rightarrow> uint8_t list) \<Rightarrow> int \<Rightarrow> int list \<Rightarrow> int list
    \<Rightarrow> uint8_t list" where
  "kvars_defitems enc slot_id (d # ds) (r # rs) = enc d r slot_id @ kvars_defitems enc (slot_id + 1) ds rs"
| "kvars_defitems enc slot_id _ _ = []"

text \<open>The command that opens a session.\<close>

record OpenSessionCommand =
  magic :: uint32_t
  session_tag :: XpuCommandTag
  command_length :: nat
  u_session :: kern_session_info

text \<open>
  \<open>pgstromBuildSessionInfo\<close>.  An error raised on the way leaves the function without a
  command.  The optional code blobs and the other session information follow the
  parameters in the order of the source.
\<close>

definition pgstromBuildSessionInfo ::
  "host_state \<Rightarrow> pgstromPlanInfo \<Rightarrow> ExprContext \<Rightarrow> uint32_t
     \<Rightarrow> build_error + OpenSessionCommand" where
  "pgstromBuildSessionInfo host pp_info econtext inner_handle =
     (let n = (case ecxt_param_list_info econtext of
                 None \<Rightarrow> 0 | Some param_info \<Rightarrow> unat (word_of_int (numParams param_info) :: uint32_t));
          session_sz = sizeof_session_header host + 4 * n;
          sess = zeroed_session n;
          buf = replicate session_sz 0
      in case (case ecxt_param_list_info econtext of
                 None \<Rightarrow> Inr (sess, buf)
               | Some param_info \<Rightarrow>
                   build_session_param_info (get_typlenbyval host) (detoast_datum host) econtext
                     param_info (used_params pp_info) sess buf) of
           Inl e \<Rightarrow> Inl e
         | Inr (sess, buf) \<Rightarrow>
            (let (buf, o1) = append_xpucode (kexp_scan_kvars_load pp_info) buf
                               (xpucode_scan_load_vars sess);
                 (buf, o2) = append_xpucode (kexp_scan_quals pp_info) buf (xpucode_scan_quals sess);
                 (buf, o3) = append_xpucode (kexp_join_kvars_load_packed pp_info) buf
                               (xpucode_join_load_vars_packed sess);
                 (buf, o4) = append_xpucode (kexp_join_quals_packed pp_info) buf
                               (xpucode_join_quals_packed sess);
                 (buf, o5) = append_xpucode (kexp_hash_keys_packed pp_info) buf
                               (xpucode_hash_values_packed sess);
                 (buf, o6) = append_xpucode (kexp_gist_quals_packed pp_info) buf
                               (xpucode_gist_quals_packed sess);
                 (buf, o7) = append_xpucode (kexp_projection pp_info) buf (xpucode_projection sess);
                 (buf, items) = appendBinaryStringInfo buf
                                  (kvars_defitems (kern_vars_defitem_bytes host) 0
                                     (kvars_depth pp_info) (kvars_resno pp_info));
                 (buf, xact) = appendBinaryStringInfo buf (transaction_state host);
                 (buf, tz) = (case timezone host of
                                None \<Rightarrow> (buf, 0)
                              | Some zone \<Rightarrow> appendBinaryStringInfo buf zone);
                 (buf, enc) = appendBinaryStringInfo buf (encode_info host);
                 sess = sess\<lparr>xpucode_scan_load_vars := o1, xpucode_scan_quals := o2,
                           xpucode_join_load_vars_packed := o3, xpucode_join_quals_packed := o4,
                           xpucode_hash_values_packed := o5, xpucode_gist_quals_packed := o6,
                           xpucode_projection := o7,
                           query_plan_id := push_bit 32 (word_of_int (MyProcPid host)) OR
                                            ucast (pgstrom_query_plan_id host),
                           kcxt_extra_bufsz := extra_bufsz pp_info,
                           kvars_slot_width := of_nat (length (kvars_depth pp_info)),
                           kvars_slot_items := items,
                           xpucode_use_debug_code := pgstrom_use_debug_code host,
                           xactStartTimestamp := transaction_start_timestamp host,
                           session_xact_state := xact, session_timezone := tz,
                           session_encode := enc,
                           pgsql_port_number := PostPortNumber host,
                           join_inner_handle := inner_handle,
                           session_bytes := buf\<rparr>
             in Inr \<lparr>magic = XpuCommandMagicNumber host,
                     session_tag = XpuCommandTag__OpenSession,
                     command_length = sizeof_command_header host + length buf,
                     u_session = sess\<rparr>))"

text \<open>
  The record of an external parameter at run time, fetched as the loop body fetches it,
  and a Param node with a given number.
\<close>

definition runtime_param :: "ParamListInfoData \<Rightarrow> Param \<Rightarrow> ParamExternData" where
  "runtime_param param_info param =
     (case paramFetch param_info of
        Some fetch \<Rightarrow> fetch (paramid param)
      | None \<Rightarrow> c_read (params param_info) (paramid param - 1))"


text \<open>
  The error that the loop body raises at one parameter, if any.  It does not depend on the
  arena, so the empty one is used.
\<close>

definition param_error ::
  "host_state \<Rightarrow> ExprContext \<Rightarrow> ParamListInfoData \<Rightarrow> Param \<Rightarrow> build_error option" where
  "param_error host econtext param_info param =
     (case param_value_isnull econtext param_info param of
        Inl e \<Rightarrow> Some e
      | Inr (param_value, param_isnull) \<Rightarrow>
          (case param_offset (get_typlenbyval host) (detoast_datum host) [] param
                  param_value param_isnull of
             Inl e \<Rightarrow> Some e
           | Inr r \<Rightarrow> None))"

text \<open>
  A host for concrete runs: type 23 is a four-byte by-value type (\<open>int4\<close>), type 25 a
  varlena (\<open>text\<close>); there are no code blobs and no variables.
\<close>

definition example_host :: host_state where
  "example_host =
     \<lparr>get_typlenbyval = (\<lambda>oid. if oid = 23 then (4, True) else if oid = 25 then (- 1, False)
                                else (- 2, False)),
      detoast_datum = datum_pointee,
      sizeof_session_header = 8, sizeof_command_header = 16,
      kern_vars_defitem_bytes = (\<lambda>depth resno slot_id. []),
      MyProcPid = 4242, pgstrom_query_plan_id = 7, pgstrom_use_debug_code = False,
      transaction_start_timestamp = 0, transaction_state = [], timezone = None,
      encode_info = [], PostPortNumber = 5432, XpuCommandMagicNumber = 0\<rparr>"

definition example_plan :: "Param list \<Rightarrow> pgstromPlanInfo" where
  "example_plan ps =
     \<lparr>used_params = ps, kexp_scan_kvars_load = None, kexp_scan_quals = None,
      kexp_join_kvars_load_packed = None, kexp_join_quals_packed = None,
      kexp_hash_keys_packed = None, kexp_gist_quals_packed = None, kexp_projection = None,
      kvars_depth = [], kvars_resno = [], extra_bufsz = 0\<rparr>"

definition extern_param :: "int \<Rightarrow> Oid \<Rightarrow> Param" where
  "extern_param pid oid = \<lparr>paramkind = PARAM_EXTERN, paramid = pid, paramtype = oid\<rparr>"

definition extern_data :: "64 word \<Rightarrow> bool \<Rightarrow> Oid \<Rightarrow> ParamExternData" where
  "extern_data w n oid =
     \<lparr>prm_value = \<lparr>datum_word = w, datum_pointee = []\<rparr>, prm_isnull = n, ptype = oid\<rparr>"

definition example_params :: "ParamExternData list \<Rightarrow> ParamListInfoData" where
  "example_params ps = \<lparr>paramFetch = None, numParams = int (length ps), params = ps\<rparr>"

definition example_econtext :: "ParamExternData list \<Rightarrow> ExprContext" where
  "example_econtext ps =
     \<lparr>ecxt_param_exec_vals = [], ecxt_param_list_info = Some (example_params ps)\<rparr>"




section \<open>Verified properties\<close>

subsection \<open>Boolean operators\<close>

lemma count_exec_apply:
  "count_exec exec (n, kcxt) kexp result =
     (case exec kcxt kexp result of (kcxt', r) \<Rightarrow> ((Suc n, kcxt'), r))"
  by (simp add: count_exec_def)

lemma xpu_exec_depth_const:
  "xpu_exec_depth (Suc d) stack kcxt (kexp_bool_const x) result =
     (kcxt, Inr \<lparr>ops = Some TypeOpCode__bool, isnull = (x = None),
                 value = (case x of None \<Rightarrow> 0 | Some b \<Rightarrow> c_bool b)\<rparr>)"
  by (cases x) (simp_all add: kexp_bool_const_def pgfn_ConstExpr_def xpu_datum_ref_def)

text \<open>
  What \<open>pgfn_BoolExprAnd\<close> computes when each child evaluates without failure and without
  changing the context, child \<open>a\<close> to the datum \<open>f a\<close>.  If some child is a non-null false,
  the value is false and the null flag is the one that the result buffer had on entry;
  otherwise the value is true and the null flag says whether some child was null.
\<close>

lemma BoolExprAnd_loop_pure:
  assumes "\<And>a k r. a \<in> set children \<Longrightarrow> exec k a r = (k, Inr (f a))"
  shows "BoolExprAnd_loop exec status0 kcxt i children anynull result =
           (kcxt, Inr (if \<exists>a\<in>set children. \<not> isnull (f a) \<and> value (f a) = 0
                       then result\<lparr>value := 0\<rparr>
                       else result\<lparr>isnull := anynull \<or> (\<exists>a\<in>set children. isnull (f a)),
                                   value := 1\<rparr>))"
  using assms
proof (induction children arbitrary: i anynull)
  case Nil
  then show ?case by (simp add: c_bool_def)
next
  case (Cons a rest)
  have e: "exec kcxt a (status0 i) = (kcxt, Inr (f a))" using Cons.prems by simp
  have r: "\<And>b k r. b \<in> set rest \<Longrightarrow> exec k b r = (k, Inr (f b))" using Cons.prems by simp
  show ?case
  proof (cases "isnull (f a)")
    case True
    with e Cons.IH [OF r, of "Suc i" True] show ?thesis by auto
  next
    case False
    with e Cons.IH [OF r, of "Suc i" anynull] show ?thesis by (auto simp: c_bool_def)
  qed
qed

text \<open>
  C1, at \<open>AND(false, null)\<close> with a result buffer whose null flag is set on entry: the
  first child is a non-null false, evaluation stops there and the value is false, but the
  null flag is still set, so the result reads as null and not as the non-null false that
  the three-valued AND requires.
\<close>

theorem pgfn_BoolExprAnd_short_circuit_keeps_isnull:
  "pgfn_BoolExprAnd (xpu_exec_depth 1 zeroed_bool) (\<lambda>i. zeroed_bool) empty_context
     (kexp_node FuncOpCode__BoolExpr_And [kexp_bool_const (Some False), kexp_bool_const None])
     \<lparr>ops = None, isnull = True, value = 0\<rparr>
   = (empty_context, Inr \<lparr>ops = Some TypeOpCode__bool, isnull = True, value = 0\<rparr>)"
  by (simp add: pgfn_BoolExprAnd_def KEXP_FIRST_ARG_def kexp_node_def xpu_exec_depth_const
        c_bool_def del: xpu_exec_depth.simps)

text \<open>
  The same through the evaluator alone: when the local \<open>status\<close> of
  \<open>pgfn_BoolTestExpr\<close> happens to hold a set null flag, \<open>AND(false)\<close> leaves it set, and
  \<open>IsNotUnknown(AND(false))\<close> comes out false.
\<close>

lemma stale_status_reads_as_null:
  "xpu_exec_depth 3 \<lparr>ops = None, isnull = True, value = 0\<rparr> empty_context
     (kexp_node FuncOpCode__BoolTestExpr_IsNotUnknown
        [kexp_node FuncOpCode__BoolExpr_And [kexp_bool_const (Some False)]])
     zeroed_bool
   = (empty_context, Inr \<lparr>ops = Some TypeOpCode__bool, isnull = False, value = 0\<rparr>)"
  by code_simp

text \<open>
  The negation in \<open>pgfn_BoolExprNot\<close> never reads the child's value: for a non-null child
  the result is the negation of what the result buffer held on entry.
\<close>

lemma pgfn_BoolExprNot_ignores_child_value:
  assumes "args kexp = [arg]" and "exec kcxt arg status0 = (kcxt', Inr status)"
    and "\<not> isnull status"
  shows "pgfn_BoolExprNot exec status0 kcxt kexp result =
           (kcxt', Inr \<lparr>ops = Some TypeOpCode__bool, isnull = False,
                        value = c_bool (value result = 0)\<rparr>)"
  using assms by (simp add: pgfn_BoolExprNot_def KEXP_FIRST_ARG_def)

text \<open>
  C5, at \<open>NOT(true)\<close> with a zeroed result buffer: the child is a non-null true, and the
  result is a non-null true as well, where the negation of the child is false.
\<close>

theorem pgfn_BoolExprNot_negates_result_buffer:
  "pgfn_BoolExprNot (xpu_exec_depth 1 zeroed_bool) zeroed_bool empty_context
     (kexp_node FuncOpCode__BoolExpr_Not [kexp_bool_const (Some True)]) zeroed_bool
   = (empty_context, Inr \<lparr>ops = Some TypeOpCode__bool, isnull = False, value = 1\<rparr>)"
  by (simp add: pgfn_BoolExprNot_def KEXP_FIRST_ARG_def kexp_node_def xpu_exec_depth_const
        c_bool_def zeroed_bool_def del: xpu_exec_depth.simps)

text \<open>
  C6: a NullTest or BooleanTest node with its one child calls the evaluator exactly once,
  on that child (the call counter goes from \<open>n\<close> to \<open>n + 1\<close>, and the context is the one
  that call left).  If the call fails, the failure is passed on; otherwise the result is a
  non-null boolean: for IsNull it is true iff the child is null, for IsNotNull iff it is not,
  and for the six boolean tests it is the entry of the three-valued truth table.
\<close>

theorem pgfn_NullTest_BoolTest_truth_table:
  fixes exec_any :: "('s, 'v) xpu_exec" and exec :: "('s, uint8_t) xpu_exec"
  assumes "args kexp = [arg]"
  shows "(is_NullTest (opcode kexp) \<longrightarrow>
            pgfn_NullTestExpr (count_exec exec_any) any0 (n, kcxt) kexp result =
              (case exec_any kcxt arg any0 of
                 (kcxt', Inl e) \<Rightarrow> ((Suc n, kcxt'), Inl e)
               | (kcxt', Inr status) \<Rightarrow>
                   ((Suc n, kcxt'),
                    Inr \<lparr>ops = Some TypeOpCode__bool, isnull = False,
                         value = c_bool (if opcode kexp = FuncOpCode__NullTestExpr_IsNull
                                         then isnull status else \<not> isnull status)\<rparr>))) \<and>
         (is_BoolTest (opcode kexp) \<longrightarrow>
            pgfn_BoolTestExpr (count_exec exec) status0 (n, kcxt) kexp result =
              (case exec kcxt arg status0 of
                 (kcxt', Inl e) \<Rightarrow> ((Suc n, kcxt'), Inl e)
               | (kcxt', Inr status) \<Rightarrow>
                   ((Suc n, kcxt'),
                    Inr \<lparr>ops = Some TypeOpCode__bool, isnull = False,
                         value = c_bool (spec_BoolTest (opcode kexp) (xpu_truth status))\<rparr>)))"
proof (intro conjI impI)
  assume "is_NullTest (opcode kexp)"
  with assms show "pgfn_NullTestExpr (count_exec exec_any) any0 (n, kcxt) kexp result =
      (case exec_any kcxt arg any0 of
         (kcxt', Inl e) \<Rightarrow> ((Suc n, kcxt'), Inl e)
       | (kcxt', Inr status) \<Rightarrow>
           ((Suc n, kcxt'),
            Inr \<lparr>ops = Some TypeOpCode__bool, isnull = False,
                 value = c_bool (if opcode kexp = FuncOpCode__NullTestExpr_IsNull
                                 then isnull status else \<not> isnull status)\<rparr>))"
    by (auto simp: is_NullTest_def pgfn_NullTestExpr_def KEXP_FIRST_ARG_def count_exec_apply
             split: prod.splits sum.splits)
next
  assume "is_BoolTest (opcode kexp)"
  with assms show "pgfn_BoolTestExpr (count_exec exec) status0 (n, kcxt) kexp result =
      (case exec kcxt arg status0 of
         (kcxt', Inl e) \<Rightarrow> ((Suc n, kcxt'), Inl e)
       | (kcxt', Inr status) \<Rightarrow>
           ((Suc n, kcxt'),
            Inr \<lparr>ops = Some TypeOpCode__bool, isnull = False,
                 value = c_bool (spec_BoolTest (opcode kexp) (xpu_truth status))\<rparr>))"
    by (auto simp: is_BoolTest_def pgfn_BoolTestExpr_def KEXP_FIRST_ARG_def count_exec_apply
             xpu_truth_def
             split: prod.splits sum.splits)
qed

theorem pgfn_NullTest_BoolTest_truth_table_witness:
  "args (kexp_node FuncOpCode__NullTestExpr_IsNull [kexp_bool_const None])
     = [kexp_bool_const None] \<and>
   is_NullTest (opcode (kexp_node FuncOpCode__NullTestExpr_IsNull [kexp_bool_const None])) \<and>
   pgfn_NullTestExpr (count_exec (xpu_exec_depth 1 zeroed_bool)) zeroed_bool (0, empty_context)
     (kexp_node FuncOpCode__NullTestExpr_IsNull [kexp_bool_const None]) zeroed_bool
     = ((1, empty_context), Inr \<lparr>ops = Some TypeOpCode__bool, isnull = False, value = 1\<rparr>) \<and>
   args (kexp_node FuncOpCode__BoolTestExpr_IsTrue [kexp_bool_const None])
     = [kexp_bool_const None] \<and>
   is_BoolTest (opcode (kexp_node FuncOpCode__BoolTestExpr_IsTrue [kexp_bool_const None])) \<and>
   pgfn_BoolTestExpr (count_exec (xpu_exec_depth 1 zeroed_bool)) zeroed_bool (0, empty_context)
     (kexp_node FuncOpCode__BoolTestExpr_IsTrue [kexp_bool_const None]) zeroed_bool
     = ((1, empty_context), Inr \<lparr>ops = Some TypeOpCode__bool, isnull = False, value = 0\<rparr>)"
proof -
  have a1: "args (kexp_node FuncOpCode__NullTestExpr_IsNull [kexp_bool_const None])
              = [kexp_bool_const None]"
    and a2: "args (kexp_node FuncOpCode__BoolTestExpr_IsTrue [kexp_bool_const None])
              = [kexp_bool_const None]"
    by (simp_all add: kexp_node_def)
  have o1: "is_NullTest (opcode (kexp_node FuncOpCode__NullTestExpr_IsNull [kexp_bool_const None]))"
    and o2: "is_BoolTest (opcode (kexp_node FuncOpCode__BoolTestExpr_IsTrue [kexp_bool_const None]))"
    by (simp_all add: kexp_node_def is_NullTest_def is_BoolTest_def)
  have t1: "opcode (kexp_node FuncOpCode__NullTestExpr_IsNull [kexp_bool_const None])
              = FuncOpCode__NullTestExpr_IsNull"
    and t2: "opcode (kexp_node FuncOpCode__BoolTestExpr_IsTrue [kexp_bool_const None])
              = FuncOpCode__BoolTestExpr_IsTrue"
    by (simp_all add: kexp_node_def)
  from pgfn_NullTest_BoolTest_truth_table [OF a1, THEN conjunct1, rule_format, OF o1,
      of "xpu_exec_depth 1 zeroed_bool" zeroed_bool 0 empty_context zeroed_bool]
  have r1: "pgfn_NullTestExpr (count_exec (xpu_exec_depth 1 zeroed_bool)) zeroed_bool
      (0, empty_context)
      (kexp_node FuncOpCode__NullTestExpr_IsNull [kexp_bool_const None]) zeroed_bool
      = ((1, empty_context), Inr \<lparr>ops = Some TypeOpCode__bool, isnull = False, value = 1\<rparr>)"
    unfolding t1 by (simp add: xpu_exec_depth_const c_bool_def del: xpu_exec_depth.simps)
  from pgfn_NullTest_BoolTest_truth_table [OF a2, THEN conjunct2, rule_format, OF o2,
      of "xpu_exec_depth 1 zeroed_bool" zeroed_bool 0 empty_context zeroed_bool]
  have r2: "pgfn_BoolTestExpr (count_exec (xpu_exec_depth 1 zeroed_bool)) zeroed_bool
      (0, empty_context)
      (kexp_node FuncOpCode__BoolTestExpr_IsTrue [kexp_bool_const None]) zeroed_bool
      = ((1, empty_context), Inr \<lparr>ops = Some TypeOpCode__bool, isnull = False, value = 0\<rparr>)"
    unfolding t2
    by (simp add: xpu_exec_depth_const c_bool_def xpu_truth_def del: xpu_exec_depth.simps)
  from a1 o1 r1 a2 o2 r2 show ?thesis by blast
qed

subsection \<open>Fixed-width base types\<close>

lemma load_store_bytes:
  "(load_bytes (store_bytes n w) :: 'a::len word) = take_bit (8 * n) w"
proof (induction n arbitrary: w)
  case 0
  then show ?case by simp
next
  case (Suc n)
  have "(ucast (ucast w :: uint8_t) :: 'a word) + push_bit 8 (take_bit (8 * n) (drop_bit 8 w))
        = take_bit (8 * Suc n) w"
  proof -
    have "(ucast (ucast w :: uint8_t) :: 'a word) + push_bit 8 (take_bit (8 * n) (drop_bit 8 w))
        = (ucast (ucast w :: uint8_t) :: 'a word) OR push_bit 8 (take_bit (8 * n) (drop_bit 8 w))"
      by (rule disjunctive_add_eq_or) (rule bit_eqI, auto simp: bit_simps)
    also have "\<dots> = take_bit (8 * Suc n) w"
      by (rule bit_eqI) (auto simp: bit_simps)
    finally show ?thesis .
  qed
  with Suc show ?case by simp
qed

lemma length_store_bytes: "length (store_bytes n w) = n"
  by (induction n arbitrary: w) simp_all

lemma load_store_bytes_full:
  "LENGTH('a) = 8 * n \<Longrightarrow> (load_bytes (store_bytes n w) :: 'a::len word) = w"
  by (simp add: load_store_bytes) (metis take_bit_length_eq)

text \<open>
  C10: for a base type \<open>NAME\<close> of the catalog, with \<open>BASETYPE\<close> the word type of its
  width: storing a non-null datum returns \<open>sizeof(BASETYPE)\<close>, writes the bytes of the value
  at the start of the buffer and changes nothing behind them, and a reference to the written
  bytes gives a non-null datum with the same value; storing a null datum returns 0 and leaves
  the buffer alone; a reference to the null address gives a null datum, whose hash is 0.
\<close>

theorem basetype_store_ref_roundtrip:
  fixes arg :: "('a::len word) xpu_datum_t"
  assumes "LENGTH('a) = 8 * sizeof_BASETYPE NAME"
  shows "(\<not> isnull arg \<longrightarrow>
            snd (xpu_datum_store NAME buffer arg) = sizeof_BASETYPE NAME \<and>
            take (sizeof_BASETYPE NAME) (fst (xpu_datum_store NAME buffer arg))
              = store_bytes (sizeof_BASETYPE NAME) (value arg) \<and>
            drop (sizeof_BASETYPE NAME) (fst (xpu_datum_store NAME buffer arg))
              = drop (sizeof_BASETYPE NAME) buffer \<and>
            (xpu_datum_ref NAME (Some (fst (xpu_datum_store NAME buffer arg)))
               :: ('a word) xpu_datum_t)
              = \<lparr>ops = Some NAME, isnull = False, value = value arg\<rparr>) \<and>
         (isnull arg \<longrightarrow> xpu_datum_store NAME buffer arg = (buffer, 0)) \<and>
         (xpu_datum_ref NAME None :: ('a word) xpu_datum_t)
            = \<lparr>ops = Some NAME, isnull = True, value = 0\<rparr> \<and>
         xpu_datum_hash NAME value_ptr (xpu_datum_ref NAME None :: ('a word) xpu_datum_t) = 0"
  using assms
  by (simp add: xpu_datum_store_def xpu_datum_ref_def xpu_datum_hash_def length_store_bytes
        load_store_bytes_full)

lemma store_bytes_4_example: "store_bytes 4 (0x01020304 :: 32 word) = [4, 3, 2, 1]"
  by code_simp

theorem basetype_store_ref_roundtrip_witness:
  "LENGTH(32) = 8 * sizeof_BASETYPE TypeOpCode__int4 \<and>
   \<not> isnull \<lparr>ops = Some TypeOpCode__int4, isnull = False, value = (0x01020304 :: 32 word)\<rparr> \<and>
   xpu_datum_store TypeOpCode__int4 [9, 9, 9, 9, 9, 9]
      \<lparr>ops = Some TypeOpCode__int4, isnull = False, value = (0x01020304 :: 32 word)\<rparr>
     = ([4, 3, 2, 1, 9, 9], 4) \<and>
   (xpu_datum_ref TypeOpCode__int4 (Some [4, 3, 2, 1, 9, 9]) :: (32 word) xpu_datum_t)
     = \<lparr>ops = Some TypeOpCode__int4, isnull = False, value = 0x01020304\<rparr> \<and>
   isnull \<lparr>ops = Some TypeOpCode__int4, isnull = True, value = (7 :: 32 word)\<rparr> \<and>
   xpu_datum_store TypeOpCode__int4 [9, 9, 9, 9, 9, 9]
      \<lparr>ops = Some TypeOpCode__int4, isnull = True, value = (7 :: 32 word)\<rparr>
     = ([9, 9, 9, 9, 9, 9], 0)"
proof -
  have h: "LENGTH(32) = 8 * sizeof_BASETYPE TypeOpCode__int4" by simp
  have s: "xpu_datum_store TypeOpCode__int4 [9, 9, 9, 9, 9, 9]
      \<lparr>ops = Some TypeOpCode__int4, isnull = False, value = (0x01020304 :: 32 word)\<rparr>
     = ([4, 3, 2, 1, 9, 9], 4)"
    by (simp add: xpu_datum_store_def store_bytes_4_example)
  from basetype_store_ref_roundtrip [OF h,
      of "\<lparr>ops = Some TypeOpCode__int4, isnull = False, value = (0x01020304 :: 32 word)\<rparr>"
         "[9, 9, 9, 9, 9, 9]"]
    basetype_store_ref_roundtrip [OF h,
      of "\<lparr>ops = Some TypeOpCode__int4, isnull = True, value = (7 :: 32 word)\<rparr>"
         "[9, 9, 9, 9, 9, 9]"]
  show ?thesis using h by (simp add: s)
qed

subsection \<open>The hash function\<close>

lemma take4_drop:
  "n + 4 \<le> length k \<Longrightarrow> take 4 (drop n k) = [k ! n, k ! (n + 1), k ! (n + 2), k ! (n + 3)]"
proof -
  assume h: "n + 4 \<le> length k"
  have "length (take 4 (drop n k)) = 4" using h by simp
  moreover have "\<And>i. i < 4 \<Longrightarrow> take 4 (drop n k) ! i = k ! (n + i)" using h by simp
  ultimately show ?thesis
    by (intro nth_equalityI) (auto simp: nth_Cons' numeral_eq_Suc less_Suc_eq)
qed

lemma word_at_bytes:
  "4 * i + 4 \<le> length k \<Longrightarrow>
   word_at k i = byte_shl k (4 * i) 0 + (byte_shl k (4 * i + 1) 8 + byte_shl k (4 * i + 2) 16
                   + byte_shl k (4 * i + 3) 24)"
  by (simp add: word_at_def take4_drop byte_shl_def push_bit_add)

lemma hash_loops_agree:
  "unat len \<le> length k \<Longrightarrow> hash_loop_aligned k len s = hash_loop_unaligned k len s"
proof (induction k len s rule: hash_loop_aligned.induct)
  case (1 ka len s)
  show ?case
  proof (cases "12 \<le> len")
    case False
    then show ?thesis by (simp add: hash_loop_aligned.simps hash_loop_unaligned.simps)
  next
    case True
    obtain a b c where s: "s = (a, b, c)" by (cases s)
    from True have l12: "12 \<le> unat len" by (simp add: word_le_nat_alt)
    with "1.prems" have len: "12 \<le> length ka" by simp
    have sub: "unat (len - 12) = unat len - 12"
      using True by (simp add: unat_sub)
    have rest: "unat (len - 12) \<le> length (drop 12 ka)"
      using "1.prems" sub by simp
    have w0: "word_at ka 0 = byte_shl ka 0 0 + (byte_shl ka 1 8 + byte_shl ka 2 16 + byte_shl ka 3 24)"
      using word_at_bytes [of 0 ka] len by (simp add: numeral_2_eq_2)
    have w1: "word_at ka 1 = byte_shl ka 4 0 + (byte_shl ka 5 8 + byte_shl ka 6 16 + byte_shl ka 7 24)"
      using word_at_bytes [of 1 ka] len by simp
    have w2: "word_at ka 2 = byte_shl ka 8 0 + (byte_shl ka 9 8 + byte_shl ka 10 16 + byte_shl ka 11 24)"
      using word_at_bytes [of 2 ka] len by simp
    have args: "(a + word_at ka 0, b + word_at ka 1, c + word_at ka 2) =
        (a + (byte_shl ka 0 0 + (byte_shl ka 1 8 + byte_shl ka 2 16 + byte_shl ka 3 24)),
         b + (byte_shl ka 4 0 + (byte_shl ka 5 8 + byte_shl ka 6 16 + byte_shl ka 7 24)),
         c + (byte_shl ka 8 0 + (byte_shl ka 9 8 + byte_shl ka 10 16 + byte_shl ka 11 24)))"
      unfolding w0 w1 w2 by (rule refl)
    have "hash_loop_aligned ka len s =
          hash_loop_aligned (drop 12 ka) (len - 12)
            (mix (a + word_at ka 0, b + word_at ka 1, c + word_at ka 2))"
      using True s by (subst hash_loop_aligned.simps) simp
    also have "\<dots> = hash_loop_unaligned (drop 12 ka) (len - 12)
            (mix (a + word_at ka 0, b + word_at ka 1, c + word_at ka 2))"
      using "1.IH" [OF True s [symmetric] refl rest] .
    also have "\<dots> = hash_loop_unaligned (drop 12 ka) (len - 12)
        (mix (a + (byte_shl ka 0 0 + (byte_shl ka 1 8 + byte_shl ka 2 16 + byte_shl ka 3 24)),
              b + (byte_shl ka 4 0 + (byte_shl ka 5 8 + byte_shl ka 6 16 + byte_shl ka 7 24)),
              c + (byte_shl ka 8 0 + (byte_shl ka 9 8 + byte_shl ka 10 16 + byte_shl ka 11 24))))"
      by (simp only: args)
    also have "\<dots> = hash_loop_unaligned ka len s"
      using True s by (subst (2) hash_loop_unaligned.simps) simp
    finally show ?thesis .
  qed
qed

lemma hash_loop_aligned_exit:
  "unat len \<le> length k \<Longrightarrow> hash_loop_aligned k len s = (k', len', s') \<Longrightarrow>
   unat len' < 12 \<and> unat len' \<le> length k'"
proof (induction k len s rule: hash_loop_aligned.induct)
  case (1 ka len s)
  show ?case
  proof (cases "12 \<le> len")
    case False
    with "1.prems" show ?thesis by (simp add: word_le_nat_alt hash_loop_aligned.simps)
  next
    case True
    obtain a b c where s: "s = (a, b, c)" by (cases s)
    have sub: "unat (len - 12) = unat len - 12"
      using True by (simp add: unat_sub)
    have rest: "unat (len - 12) \<le> length (drop 12 ka)"
      using "1.prems" sub by simp
    have "hash_loop_aligned (drop 12 ka) (len - 12)
            (mix (a + word_at ka 0, b + word_at ka 1, c + word_at ka 2)) = (k', len', s')"
      using "1.prems"(2) True s by (subst (asm) hash_loop_aligned.simps) simp
    from "1.IH" [OF True s [symmetric] refl rest this] show ?thesis .
  qed
qed

lemma hash_tails_agree:
  assumes "n < 12" and "n \<le> length k"
  shows "hash_tail_aligned n k s = hash_tail_unaligned n k s"
proof -
  obtain a b c where s: "s = (a, b, c)" by (cases s)
  have w0: "4 \<le> n \<Longrightarrow> word_at k 0 = byte_shl k 0 0 + (byte_shl k 1 8 + byte_shl k 2 16 + byte_shl k 3 24)"
    using word_at_bytes [of 0 k] assms by (simp add: numeral_2_eq_2)
  have w1: "8 \<le> n \<Longrightarrow> word_at k 1 = byte_shl k 4 0 + (byte_shl k 5 8 + byte_shl k 6 16 + byte_shl k 7 24)"
    using word_at_bytes [of 1 k] assms by simp
  from assms(1) consider (a_bytes) "n < 4" | (b_bytes) "4 \<le> n" "n < 8"
    | (c_bytes) "8 \<le> n" "n < 12" by linarith
  then show ?thesis
  proof cases
    case a_bytes
    then have "n = 0 \<or> n = 1 \<or> n = 2 \<or> n = 3" by arith
    then show ?thesis using s by (elim disjE) simp_all
  next
    case b_bytes
    then have "n = 4 \<or> n = 5 \<or> n = 6 \<or> n = 7" by arith
    then show ?thesis using s w0 by (elim disjE) (simp_all add: ac_simps)
  next
    case c_bytes
    then have "n = 8 \<or> n = 9 \<or> n = 10 \<or> n = 11" by arith
    then show ?thesis using s w0 w1 by (elim disjE) (simp_all add: ac_simps)
  qed
qed

lemma pg_hash_any_paths_agree:
  assumes "unat len \<le> length k"
  shows "pg_hash_any_aligned k len s = pg_hash_any_unaligned k len s"
proof -
  obtain k' len' s' where e: "hash_loop_aligned k len s = (k', len', s')"
    by (cases "hash_loop_aligned k len s")
  from hash_loop_aligned_exit [OF assms e] have "unat len' < 12" "unat len' \<le> length k'"
    by simp_all
  then have "hash_tail_aligned (unat len') k' s' = hash_tail_unaligned (unat len') k' s'"
    by (rule hash_tails_agree)
  with e hash_loops_agree [OF assms, of s] show ?thesis
    by (simp add: pg_hash_any_aligned_def pg_hash_any_unaligned_def)
qed

text \<open>
  C9: when the \<open>sz\<close> bytes at the pointer are readable, the word-wise path and the
  byte-wise path of \<open>pg_hash_any\<close> compute the same state from any initial state, so the
  hash is the same whatever the two low bits of the address are.
\<close>

theorem pg_hash_any_alignment_independent:
  assumes "0 \<le> sz" and "nat sz \<le> length k"
  shows "pg_hash_any_aligned k (word_of_int sz) s = pg_hash_any_unaligned k (word_of_int sz) s \<and>
         pg_hash_any ptr k sz = pg_hash_any ptr' k sz"
proof -
  have "unat (word_of_int sz :: uint32_t) = nat (take_bit 32 sz)"
    by (simp add: unat_eq_nat_uint uint_word_of_int_eq)
  also have "\<dots> \<le> nat sz"
    using assms(1) by (intro nat_mono) (simp add: take_bit_int_less_eq_self_iff)
  finally have "unat (word_of_int sz :: uint32_t) \<le> length k"
    using assms(2) by simp
  from pg_hash_any_paths_agree [OF this] show ?thesis
    by (simp add: pg_hash_any_def Let_def)
qed

theorem pg_hash_any_alignment_independent_witness:
  "(0 :: int) \<le> 13 \<and>
   nat 13 \<le> length [1, 2, 3, 4, 5, 6, 7, 8, 9, 10, 11, 12, 13 :: uint8_t] \<and>
   pg_hash_any 0x1000 [1, 2, 3, 4, 5, 6, 7, 8, 9, 10, 11, 12, 13] 13
     = pg_hash_any 0x1001 [1, 2, 3, 4, 5, 6, 7, 8, 9, 10, 11, 12, 13] 13"
proof -
  have h1: "(0 :: int) \<le> 13" by simp
  have h2: "nat 13 \<le> length [1, 2, 3, 4, 5, 6, 7, 8, 9, 10, 11, 12, 13 :: uint8_t]" by simp
  have "pg_hash_any 0x1000 [1, 2, 3, 4, 5, 6, 7, 8, 9, 10, 11, 12, 13] 13
     = pg_hash_any 0x1001 [1, 2, 3, 4, 5, 6, 7, 8, 9, 10, 11, 12, 13] 13"
    by (rule pg_hash_any_alignment_independent [OF h1 h2, THEN conjunct2])
  with h1 h2 show ?thesis by blast
qed

subsection \<open>Connections and the dispatcher\<close>

lemma errorbuf_attach:
  "errorbuf (xpuConnectAttachCommand c xcmd) =
     (if tag xcmd = XpuCommandTag__Error \<and> errcode (errorbuf c) = ERRCODE_STROM_SUCCESS
      then u_error xcmd else errorbuf c)"
  by (simp add: xpuConnectAttachCommand_def Let_def)

lemma errorbuf_attach_many:
  "errcode (errorbuf c) \<noteq> ERRCODE_STROM_SUCCESS \<Longrightarrow>
   errorbuf (foldl xpuConnectAttachCommand c arrivals) = errorbuf c"
  by (induction arrivals arbitrary: c) (simp_all add: errorbuf_attach)






lemma ready_send [simp]: "ready_cmds_list (xpuClientSendCommandIOV c) = ready_cmds_list c"
  by (simp add: xpuClientSendCommandIOV_def)








lemma wait_raise:
  "errcode (errorbuf (conn pts)) \<noteq> ERRCODE_STROM_SUCCESS \<Longrightarrow>
   waitAndFetchNextXpuCommand cbf t sched pts = Some (Raise (errorbuf (conn pts)), pts, sched)"
  by (subst waitAndFetchNextXpuCommand.simps) simp

lemma wait_pickup:
  "errcode (errorbuf (conn pts)) = ERRCODE_STROM_SUCCESS \<Longrightarrow>
   ready_cmds_list (conn pts) \<noteq> [] \<Longrightarrow>
   waitAndFetchNextXpuCommand cbf t sched pts =
     (case pickupNextXpuCommand (conn pts) of
        None \<Rightarrow> None
      | Some (xcmd, c') \<Rightarrow> Some (Return (Some xcmd), pts\<lparr>conn := c'\<rparr>, sched))"
  by (subst waitAndFetchNextXpuCommand.simps) simp

lemma wait_running:
  "errcode (errorbuf (conn pts)) = ERRCODE_STROM_SUCCESS \<Longrightarrow>
   ready_cmds_list (conn pts) = [] \<Longrightarrow> num_running_cmds (conn pts) > 0 \<Longrightarrow>
   waitAndFetchNextXpuCommand cbf t sched pts = wait_latch cbf t sched pts"
  by (subst waitAndFetchNextXpuCommand.simps) simp

lemma wait_idle:
  "errcode (errorbuf (conn pts)) = ERRCODE_STROM_SUCCESS \<Longrightarrow>
   ready_cmds_list (conn pts) = [] \<Longrightarrow> \<not> num_running_cmds (conn pts) > 0 \<Longrightarrow>
   waitAndFetchNextXpuCommand cbf t sched pts =
     (if \<not> t then Some (Return None, pts, sched)
      else (case cbf of
              None \<Rightarrow> Some (Return None, pts, sched)
            | Some cb \<Rightarrow>
                if final_done pts then Some (Return None, pts, sched)
                else (case cb pts of
                        (None, p1) \<Rightarrow> Some (Return None, p1, sched)
                      | (Some xcmd, p1) \<Rightarrow>
                          wait_latch cbf t sched
                            (p1\<lparr>conn := xpuClientSendCommandIOV (conn p1)\<rparr>))))"
  by (subst waitAndFetchNextXpuCommand.simps) simp

lemma pickup_Some:
  "ready_cmds_list c \<noteq> [] \<Longrightarrow> \<exists>x c'. pickupNextXpuCommand c = Some (x, c')"
  by (cases "ready_cmds_list c") (simp_all add: pickupNextXpuCommand_def)

lemma reachable_attach_many:
  "xpu_reachable C (c, b) \<Longrightarrow> xpu_reachable C (foldl xpuConnectAttachCommand c arrivals, b)"
  by (induction arrivals arbitrary: c) (auto intro: xpu_reachable.attached)

lemma reachable_receive:
  "xpu_reachable C (conn pts, b) \<Longrightarrow> xpu_reachable C (conn (receive arrivals pts), b)"
  by (simp add: receive_def reachable_attach_many)

lemma wait_reachable:
  fixes cbf :: "'p chunk_callback option"
  shows "keeps_conn_opt cbf \<Longrightarrow> xpu_reachable C (conn pts, False) \<Longrightarrow>
         waitAndFetchNextXpuCommand cbf t sched pts = Some (r, pts', sched') \<Longrightarrow>
           xpu_reachable C (conn pts', False)"
    and "keeps_conn_opt cbf \<Longrightarrow> xpu_reachable C (conn pts, False) \<Longrightarrow>
         wait_latch cbf t sched pts = Some (r, pts', sched') \<Longrightarrow>
           xpu_reachable C (conn pts', False)"
proof (induction cbf t sched pts and cbf t sched pts
       rule: waitAndFetchNextXpuCommand_wait_latch.induct)
  case (1 cbf t sched pts)
  note k = "1.prems"(1) and reach = "1.prems"(2) and prem = "1.prems"(3)
  show ?case
  proof (cases "errcode (errorbuf (conn pts)) \<noteq> ERRCODE_STROM_SUCCESS")
    case True
    from prem have "pts' = pts" unfolding wait_raise [OF True] by simp
    with reach show ?thesis by simp
  next
    case ok: False
    then have ok': "errcode (errorbuf (conn pts)) = ERRCODE_STROM_SUCCESS" by simp
    show ?thesis
    proof (cases "ready_cmds_list (conn pts) \<noteq> []")
      case True
      from pickup_Some [OF True] obtain x c' where p: "pickupNextXpuCommand (conn pts) = Some (x, c')"
        by blast
      from prem have "pts' = pts\<lparr>conn := c'\<rparr>"
        unfolding wait_pickup [OF ok' True] p by simp
      with xpu_reachable.picked_up [OF reach p] show ?thesis by simp
    next
      case empty: False
      then have e': "ready_cmds_list (conn pts) = []" by simp
      show ?thesis
      proof (cases "num_running_cmds (conn pts) > 0")
        case True
        from prem have "wait_latch cbf t sched pts = Some (r, pts', sched')"
          unfolding wait_running [OF ok' e' True] .
        from "1.IH"(1) [OF ok empty True k reach this] show ?thesis .
      next
        case idle: False
        note eq = prem [unfolded wait_idle [OF ok' e' idle]]
        show ?thesis
        proof (cases t)
          case False
          with eq have "pts' = pts" by simp
          with reach show ?thesis by simp
        next
          case True
          show ?thesis
          proof (cases cbf)
            case None
            with eq True have "pts' = pts" by simp
            with reach show ?thesis by simp
          next
            case (Some cb)
            with k have kc: "conn (snd (cb pts)) = conn pts"
              by (simp add: keeps_conn_opt_def keeps_conn_def)
            show ?thesis
            proof (cases "final_done pts")
              case True
              with eq \<open>t\<close> Some have "pts' = pts" by simp
              with reach show ?thesis by simp
            next
              case nf: False
              obtain a p1 where c: "cb pts = (a, p1)" by (cases "cb pts")
              with kc have same: "conn p1 = conn pts" by simp
              show ?thesis
              proof (cases a)
                case None
                with eq \<open>t\<close> Some nf c have "pts' = p1" by simp
                with reach same show ?thesis by simp
              next
                case (Some xcmd)
                with eq \<open>t\<close> \<open>cbf = Some cb\<close> nf c
                have w: "wait_latch cbf t sched (p1\<lparr>conn := xpuClientSendCommandIOV (conn p1)\<rparr>)
                           = Some (r, pts', sched')" by simp
                have "xpu_reachable C (xpuClientSendCommandIOV (conn pts), False)"
                  by (rule xpu_reachable.sent, rule xpu_reachable.final_chunk [OF reach ok' e' idle])
                then have r1: "xpu_reachable C
                    (conn (p1\<lparr>conn := xpuClientSendCommandIOV (conn p1)\<rparr>), False)"
                  using same by simp
                have c': "(Some xcmd, p1) = cb pts" using c Some by simp
                from "1.IH"(2) [OF ok empty idle _ \<open>cbf = Some cb\<close> nf c' refl k r1 w] \<open>t\<close>
                show ?thesis by simp
              qed
            qed
          qed
        qed
      qed
    qed
  qed
next
  case (2 cbf t pts)
  then show ?case by simp
next
  case (3 cbf t arrivals sched pts)
  from "3.prems"(3) have "waitAndFetchNextXpuCommand cbf t sched (receive arrivals pts)
      = Some (r, pts', sched')" by simp
  from "3.IH" [OF "3.prems"(1) reachable_receive [OF "3.prems"(2)] this] show ?case .
qed

lemma fetch_scan_done:
  "scan_done pts \<Longrightarrow>
   fetchNextXpuCommand C cbn cbf sched pts = waitAndFetchNextXpuCommand cbf True sched pts"
  by (subst fetchNextXpuCommand.simps) simp

lemma fetch_raise:
  "\<not> scan_done pts \<Longrightarrow> errcode (errorbuf (conn pts)) \<noteq> ERRCODE_STROM_SUCCESS \<Longrightarrow>
   fetchNextXpuCommand C cbn cbf sched pts = Some (Raise (errorbuf (conn pts)), pts, sched)"
  by (subst fetchNextXpuCommand.simps) simp

lemma fetch_admit:
  "\<not> scan_done pts \<Longrightarrow> errcode (errorbuf (conn pts)) = ERRCODE_STROM_SUCCESS \<Longrightarrow>
   fetch_admits C (conn pts) \<Longrightarrow>
   fetchNextXpuCommand C cbn cbf sched pts =
     (case cbn pts of
        (None, p1) \<Rightarrow> waitAndFetchNextXpuCommand cbf True sched p1
      | (Some xcmd, p1) \<Rightarrow>
          fetch_again C cbn cbf sched (p1\<lparr>conn := xpuClientSendCommandIOV (conn p1)\<rparr>))"
  by (subst fetchNextXpuCommand.simps) simp

lemma fetch_pickup:
  "\<not> scan_done pts \<Longrightarrow> errcode (errorbuf (conn pts)) = ERRCODE_STROM_SUCCESS \<Longrightarrow>
   \<not> fetch_admits C (conn pts) \<Longrightarrow> ready_cmds_list (conn pts) \<noteq> [] \<Longrightarrow>
   fetchNextXpuCommand C cbn cbf sched pts =
     (case pickupNextXpuCommand (conn pts) of
        None \<Rightarrow> None
      | Some (xcmd, c') \<Rightarrow> Some (Return (Some xcmd), pts\<lparr>conn := c'\<rparr>, sched))"
  by (subst fetchNextXpuCommand.simps) simp

lemma fetch_wait:
  "\<not> scan_done pts \<Longrightarrow> errcode (errorbuf (conn pts)) = ERRCODE_STROM_SUCCESS \<Longrightarrow>
   \<not> fetch_admits C (conn pts) \<Longrightarrow> ready_cmds_list (conn pts) = [] \<Longrightarrow>
   fetchNextXpuCommand C cbn cbf sched pts = fetch_again C cbn cbf sched pts"
  by (subst fetchNextXpuCommand.simps) simp

lemma fetch_reachable:
  fixes cbn :: "'p chunk_callback" and cbf :: "'p chunk_callback option"
  shows "keeps_conn cbn \<Longrightarrow> keeps_conn_opt cbf \<Longrightarrow> xpu_reachable C (conn pts, False) \<Longrightarrow>
         fetchNextXpuCommand C cbn cbf sched pts = Some (r, pts', sched') \<Longrightarrow>
           xpu_reachable C (conn pts', False)"
    and "keeps_conn cbn \<Longrightarrow> keeps_conn_opt cbf \<Longrightarrow> xpu_reachable C (conn pts, False) \<Longrightarrow>
         fetch_again C cbn cbf sched pts = Some (r, pts', sched') \<Longrightarrow>
           xpu_reachable C (conn pts', False)"
proof (induction C cbn cbf sched pts and C cbn cbf sched pts
       rule: fetchNextXpuCommand_fetch_again.induct)
  case (1 C cbn cbf sched pts)
  note kn = "1.prems"(1) and kf = "1.prems"(2) and reach = "1.prems"(3) and prem = "1.prems"(4)
  show ?case
  proof (cases "scan_done pts")
    case True
    from prem have "waitAndFetchNextXpuCommand cbf True sched pts = Some (r, pts', sched')"
      unfolding fetch_scan_done [OF True] .
    from wait_reachable(1) [OF kf reach this] show ?thesis .
  next
    case scanning: False
    show ?thesis
    proof (cases "errcode (errorbuf (conn pts)) \<noteq> ERRCODE_STROM_SUCCESS")
      case True
      from prem have "pts' = pts" unfolding fetch_raise [OF scanning True] by simp
      with reach show ?thesis by simp
    next
      case ok: False
      then have ok': "errcode (errorbuf (conn pts)) = ERRCODE_STROM_SUCCESS" by simp
      show ?thesis
      proof (cases "fetch_admits C (conn pts)")
        case True
        note eq = prem [unfolded fetch_admit [OF scanning ok' True]]
        obtain a p1 where c: "cbn pts = (a, p1)" by (cases "cbn pts")
        have "conn (snd (cbn pts)) = conn pts" using kn by (simp add: keeps_conn_def)
        with c have same: "conn p1 = conn pts" by simp
        show ?thesis
        proof (cases a)
          case None
          with eq c have "waitAndFetchNextXpuCommand cbf True sched p1 = Some (r, pts', sched')"
            by simp
          from wait_reachable(1) [OF kf _ this] reach same show ?thesis by simp
        next
          case (Some xcmd)
          with eq c
          have w: "fetch_again C cbn cbf sched (p1\<lparr>conn := xpuClientSendCommandIOV (conn p1)\<rparr>)
              = Some (r, pts', sched')" by simp
          have "xpu_reachable C (xpuClientSendCommandIOV (conn pts), False)"
            by (rule xpu_reachable.sent, rule xpu_reachable.admitted [OF reach ok' True])
          then have r1: "xpu_reachable C
              (conn (p1\<lparr>conn := xpuClientSendCommandIOV (conn p1)\<rparr>), False)"
            using same by simp
          have c': "(Some xcmd, p1) = cbn pts" using c Some by simp
          from "1.IH"(1) [OF scanning ok True c' refl kn kf r1 w] show ?thesis .
        qed
      next
        case full: False
        show ?thesis
        proof (cases "ready_cmds_list (conn pts) \<noteq> []")
          case True
          from pickup_Some [OF True] obtain x c' where
            p: "pickupNextXpuCommand (conn pts) = Some (x, c')" by blast
          from prem have "pts' = pts\<lparr>conn := c'\<rparr>"
            unfolding fetch_pickup [OF scanning ok' full True] p by simp
          with xpu_reachable.picked_up [OF reach p] show ?thesis by simp
        next
          case empty: False
          then have e': "ready_cmds_list (conn pts) = []" by simp
          from prem have "fetch_again C cbn cbf sched pts = Some (r, pts', sched')"
            unfolding fetch_wait [OF scanning ok' full e'] .
          from "1.IH"(2) [OF scanning ok full empty kn kf reach this] show ?thesis .
        qed
      qed
    qed
  qed
next
  case (2 C cbn cbf pts)
  then show ?case by simp
next
  case (3 C cbn cbf arrivals sched pts)
  from "3.prems"(4) have "fetchNextXpuCommand C cbn cbf sched (receive arrivals pts)
      = Some (r, pts', sched')" by simp
  from "3.IH" [OF "3.prems"(1,2) reachable_receive [OF "3.prems"(3)] this] show ?case .
qed

lemma reachable_admission_inv:
  assumes "1 \<le> C" and "xpu_reachable C s"
  shows "admission_inv C s"
  using assms(2)
proof (induction rule: xpu_reachable.induct)
  case opened
  then show ?case using assms(1) by (simp add: admission_inv_def new_connection_def)
next
  case (attached c sending xcmd)
  then show ?case by (auto simp: admission_inv_def xpuConnectAttachCommand_def Let_def)
next
  case (admitted c)
  then show ?case by (auto simp: admission_inv_def fetch_admits_def)
next
  case (final_chunk c)
  then show ?case using assms(1) by (auto simp: admission_inv_def)
next
  case (sent c)
  then show ?case by (auto simp: admission_inv_def xpuClientSendCommandIOV_def)
next
  case (no_chunk c)
  then show ?case by (auto simp: admission_inv_def)
next
  case (picked_up c xcmd c')
  then show ?case
    by (auto simp: admission_inv_def pickupNextXpuCommand_def split: list.splits)
next
  case (put_back c xcmd)
  then show ?case by (auto simp: admission_inv_def xpuClientPutResponse_def)
qed

lemma c_div_2: "0 \<le> C \<Longrightarrow> c_div C 2 = C div 2"
  by (cases "C = 0") (simp_all add: c_div_def)


lemma errorbuf_consumer:
  "errorbuf (xpuClientSendCommand c) = errorbuf c \<and>
   errorbuf (xpuClientSendCommandIOV c) = errorbuf c \<and>
   errorbuf (xpuClientPutResponse c xcmd) = errorbuf c \<and>
   (pickupNextXpuCommand c = Some (xcmd, c') \<longrightarrow> errorbuf c' = errorbuf c)"
  by (auto simp: xpuClientSendCommand_def xpuClientSendCommandIOV_def xpuClientPutResponse_def
        pickupNextXpuCommand_def split: list.splits)

text \<open>
  C2: an \<open>Error\<close> response is copied into the error slot only while the slot holds the
  success code, and nothing that the consumer does to the connection touches the slot.
  Once the slot holds an error, whatever arrives later leaves it as it is, and every call of
  the dispatcher (in \<open>__fetchNextXpuCommand\<close> and in \<open>__waitAndFetchNextXpuCommand\<close>)
  raises that very error at once, changing nothing.
\<close>

theorem sticky_error:
  "errorbuf (xpuConnectAttachCommand c xcmd) =
     (if tag xcmd = XpuCommandTag__Error \<and> errcode (errorbuf c) = ERRCODE_STROM_SUCCESS
      then u_error xcmd else errorbuf c) \<and>
   (errorbuf (xpuClientSendCommand c) = errorbuf c \<and>
    errorbuf (xpuClientSendCommandIOV c) = errorbuf c \<and>
    errorbuf (xpuClientPutResponse c xcmd) = errorbuf c \<and>
    (pickupNextXpuCommand c = Some (xcmd, c') \<longrightarrow> errorbuf c' = errorbuf c)) \<and>
   (errcode (errorbuf (conn pts)) \<noteq> ERRCODE_STROM_SUCCESS \<longrightarrow>
      errorbuf (conn (receive arrivals pts)) = errorbuf (conn pts) \<and>
      fetchNextXpuCommand max_async_tasks cb_next_chunk cb_final_chunk sched
          (receive arrivals pts)
        = Some (Raise (errorbuf (conn pts)), receive arrivals pts, sched) \<and>
      waitAndFetchNextXpuCommand cb_final_chunk try_final_callback sched
          (receive arrivals pts)
        = Some (Raise (errorbuf (conn pts)), receive arrivals pts, sched))"
proof -
  have raised: "errorbuf (conn (receive arrivals pts)) = errorbuf (conn pts) \<and>
      fetchNextXpuCommand max_async_tasks cb_next_chunk cb_final_chunk sched
          (receive arrivals pts)
        = Some (Raise (errorbuf (conn pts)), receive arrivals pts, sched) \<and>
      waitAndFetchNextXpuCommand cb_final_chunk try_final_callback sched
          (receive arrivals pts)
        = Some (Raise (errorbuf (conn pts)), receive arrivals pts, sched)"
    if a: "errcode (errorbuf (conn pts)) \<noteq> ERRCODE_STROM_SUCCESS"
  proof -
    have e: "errorbuf (conn (receive arrivals pts)) = errorbuf (conn pts)"
      using a by (simp add: receive_def errorbuf_attach_many)
    with a have ne: "errcode (errorbuf (conn (receive arrivals pts))) \<noteq> ERRCODE_STROM_SUCCESS"
      by simp
    have w: "waitAndFetchNextXpuCommand cb_final_chunk try_final_callback sched
               (receive arrivals pts)
             = Some (Raise (errorbuf (conn pts)), receive arrivals pts, sched)"
      using wait_raise [OF ne] e by simp
    have "fetchNextXpuCommand max_async_tasks cb_next_chunk cb_final_chunk sched
               (receive arrivals pts)
             = Some (Raise (errorbuf (conn pts)), receive arrivals pts, sched)"
    proof (cases "scan_done (receive arrivals pts)")
      case True
      then show ?thesis using wait_raise [OF ne] e by (simp add: fetch_scan_done)
    next
      case False
      then show ?thesis using fetch_raise [OF False ne] e by simp
    qed
    with e w show ?thesis by simp
  qed
  from errorbuf_attach [of c xcmd] errorbuf_consumer [of c xcmd c'] raised
  show ?thesis by blast
qed

text \<open>
  C3: with a limit of at least one task, the admission test is the condition of the
  specification; in every state that the two threads can bring about the two counters
  add up to at most the limit; every call of the dispatcher that starts in such a state
  ends in such a state; and when the test fails the chunk producer is not consulted.
\<close>

theorem admission_bound:
  fixes cbn cbn' :: "'p chunk_callback"
  assumes "1 \<le> C"
  shows "(fetch_admits C c \<longleftrightarrow>
            num_running_cmds c + num_ready_cmds c < C \<and>
            (ready_cmds_list c = [] \<or> num_running_cmds c < C div 2)) \<and>
         (xpu_reachable C (c, sending) \<longrightarrow> num_running_cmds c + num_ready_cmds c \<le> C) \<and>
         (keeps_conn cbn \<and> keeps_conn_opt cbf \<and> xpu_reachable C (conn pts, False) \<and>
          fetchNextXpuCommand C cbn cbf sched pts = Some (r, pts', sched') \<longrightarrow>
            xpu_reachable C (conn pts', False) \<and>
            num_running_cmds (conn pts') + num_ready_cmds (conn pts') \<le> C) \<and>
         (\<not> scan_done pts \<and> \<not> fetch_admits C (conn pts) \<longrightarrow>
            fetchNextXpuCommand C cbn cbf [] pts = fetchNextXpuCommand C cbn' cbf [] pts)"
proof -
  have bound: "\<And>c sending. xpu_reachable C (c, sending) \<Longrightarrow>
      num_running_cmds c + num_ready_cmds c \<le> C"
  proof -
    fix c sending assume "xpu_reachable C (c, sending)"
    from reachable_admission_inv [OF assms this] show "num_running_cmds c + num_ready_cmds c \<le> C"
      by (auto simp: admission_inv_def split: if_splits)
  qed
  have test: "fetch_admits C c \<longleftrightarrow>
            num_running_cmds c + num_ready_cmds c < C \<and>
            (ready_cmds_list c = [] \<or> num_running_cmds c < C div 2)"
    using assms by (simp add: fetch_admits_def c_div_2)
  have call: "keeps_conn cbn \<and> keeps_conn_opt cbf \<and> xpu_reachable C (conn pts, False) \<and>
          fetchNextXpuCommand C cbn cbf sched pts = Some (r, pts', sched') \<longrightarrow>
            xpu_reachable C (conn pts', False) \<and>
            num_running_cmds (conn pts') + num_ready_cmds (conn pts') \<le> C"
  proof (intro impI, elim conjE)
    assume "keeps_conn cbn" "keeps_conn_opt cbf" "xpu_reachable C (conn pts, False)"
      "fetchNextXpuCommand C cbn cbf sched pts = Some (r, pts', sched')"
    then have "xpu_reachable C (conn pts', False)" by (rule fetch_reachable(1))
    with bound show "xpu_reachable C (conn pts', False) \<and>
            num_running_cmds (conn pts') + num_ready_cmds (conn pts') \<le> C" by simp
  qed
  have quiet: "\<not> scan_done pts \<and> \<not> fetch_admits C (conn pts) \<longrightarrow>
            fetchNextXpuCommand C cbn cbf [] pts = fetchNextXpuCommand C cbn' cbf [] pts"
  proof (intro impI, elim conjE)
    assume s: "\<not> scan_done pts" and f: "\<not> fetch_admits C (conn pts)"
    show "fetchNextXpuCommand C cbn cbf [] pts = fetchNextXpuCommand C cbn' cbf [] pts"
    proof (cases "errcode (errorbuf (conn pts)) \<noteq> ERRCODE_STROM_SUCCESS")
      case True
      then show ?thesis by (simp add: fetch_raise [OF s])
    next
      case False
      then have ok: "errcode (errorbuf (conn pts)) = ERRCODE_STROM_SUCCESS" by simp
      show ?thesis
      proof (cases "ready_cmds_list (conn pts) = []")
        case True
        then show ?thesis by (simp add: fetch_wait [OF s ok f])
      next
        case False
        then show ?thesis by (simp add: fetch_pickup [OF s ok f])
      qed
    qed
  qed
  from test bound call quiet show ?thesis by blast
qed















text \<open>Concrete runs: a limit of two tasks, three chunks, responses out of order.\<close>

lemmas conn_simps = fetchNextXpuCommand.simps waitAndFetchNextXpuCommand.simps
  receive_def xpuConnectAttachCommand_def xpuClientSendCommandIOV_def pickupNextXpuCommand_def
  fetch_admits_def c_div_def list_producer_def scan_start_def new_connection_def
  response_def error_response_def no_error_def ERRCODE_STROM_SUCCESS_def Let_def

lemma keeps_conn_list_producer: "keeps_conn list_producer"
  by (simp add: keeps_conn_def list_producer_def split: list.splits)

theorem sticky_error_witness:
  "errcode (errorbuf (conn ((scan_start [])\<lparr>conn :=
       xpuConnectAttachCommand (xpuClientSendCommandIOV new_connection) (error_response 42)\<rparr>)))
     \<noteq> ERRCODE_STROM_SUCCESS \<and>
   fetchNextXpuCommand 2 list_producer None []
     (receive [error_response 7] ((scan_start [])\<lparr>conn :=
        xpuConnectAttachCommand (xpuClientSendCommandIOV new_connection) (error_response 42)\<rparr>))
     = Some (Raise (u_error (error_response 42)),
             receive [error_response 7] ((scan_start [])\<lparr>conn :=
               xpuConnectAttachCommand (xpuClientSendCommandIOV new_connection)
                 (error_response 42)\<rparr>), [])"
proof -
  have h: "errcode (errorbuf (conn ((scan_start [])\<lparr>conn :=
       xpuConnectAttachCommand (xpuClientSendCommandIOV new_connection) (error_response 42)\<rparr>)))
     \<noteq> ERRCODE_STROM_SUCCESS"
    by (simp add: conn_simps)
  have e: "errorbuf (conn ((scan_start [])\<lparr>conn :=
       xpuConnectAttachCommand (xpuClientSendCommandIOV new_connection) (error_response 42)\<rparr>))
     = u_error (error_response 42)"
    by (simp add: conn_simps)
  from sticky_error [THEN conjunct2, THEN conjunct2, rule_format, OF h, THEN conjunct2,
      THEN conjunct1,
      of 2 list_producer None "[]" "[error_response 7]"] h e
  show ?thesis by simp
qed

theorem admission_bound_witness:
  "(1 :: int) \<le> 2 \<and>
   xpu_reachable 2 (xpuClientSendCommandIOV new_connection, False) \<and>
   num_running_cmds (xpuClientSendCommandIOV new_connection)
     + num_ready_cmds (xpuClientSendCommandIOV new_connection) \<le> 2 \<and>
   keeps_conn list_producer \<and> keeps_conn_opt (None :: (XpuCommand list) chunk_callback option) \<and>
   xpu_reachable 2 (conn (scan_start [response XpuCommandTag__XpuScanExec 1,
      response XpuCommandTag__XpuScanExec 2, response XpuCommandTag__XpuScanExec 3]), False) \<and>
   (\<exists>pts'. fetchNextXpuCommand 2 list_producer None [[], [response XpuCommandTag__Success 2]]
       (scan_start [response XpuCommandTag__XpuScanExec 1,
          response XpuCommandTag__XpuScanExec 2, response XpuCommandTag__XpuScanExec 3])
      = Some (Return (Some (response XpuCommandTag__Success 2)), pts', []) \<and>
      num_running_cmds (conn pts') = 1 \<and> num_ready_cmds (conn pts') = 0 \<and>
      producer pts' = [response XpuCommandTag__XpuScanExec 3] \<and>
      num_running_cmds (conn pts') + num_ready_cmds (conn pts') \<le> 2)"
proof -
  have h: "(1 :: int) \<le> 2" by simp
  have r0: "xpu_reachable 2 (new_connection, False)"
    by (rule xpu_reachable.no_chunk, rule xpu_reachable.opened)
  have r1: "xpu_reachable 2 (xpuClientSendCommandIOV new_connection, False)"
    by (rule xpu_reachable.sent, rule xpu_reachable.opened)
  have r2: "xpu_reachable 2 (conn (scan_start [response XpuCommandTag__XpuScanExec 1,
      response XpuCommandTag__XpuScanExec 2, response XpuCommandTag__XpuScanExec 3]), False)"
    using r0 by (simp add: scan_start_def)
  have k2: "keeps_conn_opt (None :: (XpuCommand list) chunk_callback option)"
    by (simp add: keeps_conn_opt_def)
  obtain pts' where f: "fetchNextXpuCommand 2 list_producer None
       [[], [response XpuCommandTag__Success 2]]
       (scan_start [response XpuCommandTag__XpuScanExec 1,
          response XpuCommandTag__XpuScanExec 2, response XpuCommandTag__XpuScanExec 3])
      = Some (Return (Some (response XpuCommandTag__Success 2)), pts', [])"
    and v: "num_running_cmds (conn pts') = 1" "num_ready_cmds (conn pts') = 0"
      "producer pts' = [response XpuCommandTag__XpuScanExec 3]"
    by (simp add: conn_simps)
  from admission_bound [OF h, THEN conjunct2, THEN conjunct1, rule_format, OF r1]
  have b1: "num_running_cmds (xpuClientSendCommandIOV new_connection)
     + num_ready_cmds (xpuClientSendCommandIOV new_connection) \<le> 2" .
  from admission_bound [OF h, THEN conjunct2, THEN conjunct2, THEN conjunct1, rule_format,
      OF conjI [OF keeps_conn_list_producer conjI [OF k2 conjI [OF r2 f]]]]
  have b2: "num_running_cmds (conn pts') + num_ready_cmds (conn pts') \<le> 2" by simp
  from h r1 b1 keeps_conn_list_producer k2 r2 f v b2 show ?thesis by blast
qed


subsection \<open>The session builder\<close>








lemma param_offset_error_buf:
  "param_offset tlb dt buf param v n = Inl e \<longleftrightarrow> param_offset tlb dt [] param v n = Inl e"
  by (auto simp: param_offset_def split: prod.splits if_splits)

lemma loop_first_error:
  assumes "\<forall>q\<in>set pre. param_error host econtext param_info q = None"
    and "param_error host econtext param_info p = Some e"
  shows "build_session_param_loop (get_typlenbyval host) (detoast_datum host) econtext param_info
           (pre @ p # post) sess buf = Inl e"
  using assms(1)
proof (induction pre arbitrary: sess buf)
  case Nil
  show ?case
  proof (cases "param_value_isnull econtext param_info p")
    case (Inl e')
    with assms(2) show ?thesis by (simp add: param_error_def)
  next
    case (Inr vn)
    obtain v n where vn: "vn = (v, n)" by (cases vn)
    with assms(2) Inr
    have "param_offset (get_typlenbyval host) (detoast_datum host) [] p v n = Inl e"
      by (auto simp: param_error_def split: sum.splits)
    then have "param_offset (get_typlenbyval host) (detoast_datum host) buf p v n = Inl e"
      by (simp add: param_offset_error_buf [of _ _ buf])
    with Inr vn show ?thesis by simp
  qed
next
  case (Cons q pre)
  from Cons.prems have q: "param_error host econtext param_info q = None"
    and rest: "\<forall>r\<in>set pre. param_error host econtext param_info r = None" by simp_all
  from q obtain v n where v: "param_value_isnull econtext param_info q = Inr (v, n)"
    by (auto simp: param_error_def split: sum.splits prod.splits)
  from q v obtain r where "param_offset (get_typlenbyval host) (detoast_datum host) [] q v n = Inr r"
    by (auto simp: param_error_def split: sum.splits)
  then obtain b off where
    o: "param_offset (get_typlenbyval host) (detoast_datum host) buf q v n = Inr (b, off)"
    using param_offset_error_buf [of "get_typlenbyval host" "detoast_datum host" buf q v n]
    by (cases "param_offset (get_typlenbyval host) (detoast_datum host) buf q v n") auto
  show ?case using v o Cons.IH [OF rest] by simp
qed

lemma loop_some_error:
  assumes "p \<in> set used" and "param_error host econtext param_info p \<noteq> None"
  shows "\<exists>e. build_session_param_loop (get_typlenbyval host) (detoast_datum host) econtext
           param_info used sess buf = Inl e"
  using assms(1)
proof (induction used arbitrary: sess buf)
  case Nil
  then show ?case by simp
next
  case (Cons q used)
  show ?case
  proof (cases "param_value_isnull econtext param_info q")
    case (Inl e)
    then show ?thesis by simp
  next
    case (Inr vn)
    obtain v n where vn: "vn = (v, n)" by (cases vn)
    show ?thesis
    proof (cases "param_offset (get_typlenbyval host) (detoast_datum host) buf q v n")
      case (Inl e)
      with Inr vn show ?thesis by simp
    next
      case ok: (Inr r)
      obtain b off where r: "r = (b, off)" by (cases r)
      have "q \<noteq> p"
      proof
        assume "q = p"
        with Inr vn ok assms(2) show False
          using param_offset_error_buf [of "get_typlenbyval host" "detoast_datum host" buf q v n]
          by (auto simp: param_error_def split: sum.splits)
      qed
      with Cons.prems have "p \<in> set used" by simp
      from Cons.IH [OF this] Inr vn ok r show ?thesis by simp
    qed
  qed
qed

lemma mismatch_error:
  assumes "paramkind p = PARAM_EXTERN" and "ptype (runtime_param param_info p) \<noteq> paramtype p"
  shows "param_error host econtext param_info p =
           Some (if OidIsValid (ptype (runtime_param param_info p))
                 then Type_mismatch (paramid p) (ptype (runtime_param param_info p)) (paramtype p)
                 else No_value_found (paramid p))"
  using assms by (simp add: param_error_def param_value_isnull_def runtime_param_def Let_def)

text \<open>
  C8, as amended: with an external parameter in the list whose run-time type differs from
  its plan-time type, the session build ends in an error and yields no command.  When all
  parameters before it pass, the error is the one raised at that parameter: the type
  mismatch with the parameter number and both types if the run-time type is a valid type,
  and ``no value found'' with the parameter number alone if it is \<open>InvalidOid\<close>.
\<close>

theorem build_session_type_mismatch:
  assumes "ecxt_param_list_info econtext = Some param_info"
    and "paramkind p = PARAM_EXTERN"
    and "ptype (runtime_param param_info p) \<noteq> paramtype p"
  shows "(p \<in> set (used_params pp_info) \<longrightarrow>
            (\<exists>e. pgstromBuildSessionInfo host pp_info econtext h = Inl e)) \<and>
         (used_params pp_info = pre @ p # post \<and>
          (\<forall>q\<in>set pre. param_error host econtext param_info q = None) \<longrightarrow>
            pgstromBuildSessionInfo host pp_info econtext h =
              Inl (if OidIsValid (ptype (runtime_param param_info p))
                   then Type_mismatch (paramid p) (ptype (runtime_param param_info p))
                          (paramtype p)
                   else No_value_found (paramid p)))"
proof (intro conjI impI)
  assume "p \<in> set (used_params pp_info)"
  moreover have "param_error host econtext param_info p \<noteq> None"
    using mismatch_error [OF assms(2,3)] by simp
  ultimately have "\<And>sess buf. \<exists>e. build_session_param_loop (get_typlenbyval host)
      (detoast_datum host) econtext param_info (used_params pp_info) sess buf = Inl e"
    by (rule loop_some_error)
  then show "\<exists>e. pgstromBuildSessionInfo host pp_info econtext h = Inl e"
    using assms(1)
    by (simp add: pgstromBuildSessionInfo_def build_session_param_info_def Let_def)
       (metis old.sum.simps(5))
next
  assume a: "used_params pp_info = pre @ p # post \<and>
          (\<forall>q\<in>set pre. param_error host econtext param_info q = None)"
  then have "\<And>sess buf. build_session_param_loop (get_typlenbyval host)
      (detoast_datum host) econtext param_info (used_params pp_info) sess buf =
      Inl (if OidIsValid (ptype (runtime_param param_info p))
           then Type_mismatch (paramid p) (ptype (runtime_param param_info p)) (paramtype p)
           else No_value_found (paramid p))"
    using loop_first_error [of pre host econtext param_info p _ post]
      mismatch_error [OF assms(2,3), of host econtext] by simp
  then show "pgstromBuildSessionInfo host pp_info econtext h =
              Inl (if OidIsValid (ptype (runtime_param param_info p))
                   then Type_mismatch (paramid p) (ptype (runtime_param param_info p))
                          (paramtype p)
                   else No_value_found (paramid p))"
    using assms(1)
    by (simp add: pgstromBuildSessionInfo_def build_session_param_info_def Let_def)
qed

text \<open>
  C8 as stated fails at a parameter whose run-time type is \<open>InvalidOid\<close>: the types differ
  and the build fails, but with the error that no value was found, which carries the
  parameter number and neither type.
\<close>

theorem build_session_type_mismatch_counterexample:
  "paramkind (extern_param 1 23) = PARAM_EXTERN \<and>
   ptype (runtime_param (example_params [extern_data 5 False 0]) (extern_param 1 23))
     \<noteq> paramtype (extern_param 1 23) \<and>
   pgstromBuildSessionInfo example_host (example_plan [extern_param 1 23])
     (example_econtext [extern_data 5 False 0]) 0 = Inl (No_value_found 1)"
  by code_simp

theorem build_session_type_mismatch_witness:
  "ecxt_param_list_info (example_econtext [extern_data 5 False 25])
     = Some (example_params [extern_data 5 False 25]) \<and>
   paramkind (extern_param 1 23) = PARAM_EXTERN \<and>
   ptype (runtime_param (example_params [extern_data 5 False 25]) (extern_param 1 23))
     \<noteq> paramtype (extern_param 1 23) \<and>
   extern_param 1 23 \<in> set (used_params (example_plan [extern_param 1 23])) \<and>
   used_params (example_plan [extern_param 1 23]) = [] @ extern_param 1 23 # [] \<and>
   pgstromBuildSessionInfo example_host (example_plan [extern_param 1 23])
     (example_econtext [extern_data 5 False 25]) 0 = Inl (Type_mismatch 1 25 23)"
proof -
  have h1: "ecxt_param_list_info (example_econtext [extern_data 5 False 25])
     = Some (example_params [extern_data 5 False 25])"
    by (simp add: example_econtext_def)
  have h2: "paramkind (extern_param 1 23) = PARAM_EXTERN" by (simp add: extern_param_def)
  have h3: "ptype (runtime_param (example_params [extern_data 5 False 25]) (extern_param 1 23))
     \<noteq> paramtype (extern_param 1 23)"
    by code_simp
  have h4: "extern_param 1 23 \<in> set (used_params (example_plan [extern_param 1 23]))"
    by (simp add: example_plan_def)
  have h5: "used_params (example_plan [extern_param 1 23]) = [] @ extern_param 1 23 # [] \<and>
    (\<forall>q\<in>set []. param_error example_host (example_econtext [extern_data 5 False 25])
        (example_params [extern_data 5 False 25]) q = None)"
    by (simp add: example_plan_def)
  have v: "(if OidIsValid (ptype (runtime_param (example_params [extern_data 5 False 25])
                 (extern_param 1 23)))
            then Type_mismatch (paramid (extern_param 1 23))
                   (ptype (runtime_param (example_params [extern_data 5 False 25])
                      (extern_param 1 23)))
                   (paramtype (extern_param 1 23))
            else No_value_found (paramid (extern_param 1 23))) = Type_mismatch 1 25 23"
    by code_simp
  have "pgstromBuildSessionInfo example_host (example_plan [extern_param 1 23])
     (example_econtext [extern_data 5 False 25]) 0 = Inl (Type_mismatch 1 25 23)"
    using build_session_type_mismatch [OF h1 h2 h3, THEN conjunct2, rule_format, OF h5]
    unfolding v .
  with h1 h2 h3 h4 h5 show ?thesis by blast
qed



end
